theory Spec2Isabelle
  imports Main
begin

section \<open>Python values, errors and string helpers\<close>

text \<open>
  The module \<^verbatim>\<open>src/core/vcd/vcdValidations.py\<close> works on decoded JSON and XML payloads
  (the results of \<^verbatim>\<open>json.load\<close>, \<^verbatim>\<open>response.json()\<close> and \<^verbatim>\<open>xmltodict.parse\<close>).
  They are modelled by one datatype; a Python dict is an association list in insertion
  order. Every exception the code can raise is a value of \<open>pyerr\<close>, and a computation
  that may raise returns \<open>pyerr + 'a\<close> with \<open>Inl\<close> for the raised exception.
\<close>

datatype pyerr =
    Exception string
  | TypeError string
  | KeyError string
  | ValueError string
  | IndexError string
  | AttributeError string
  | UnboundLocalError string
  | FileNotFoundError
  | SSLError
  | ConnectionError

datatype json =
    JNull
  | JBool bool
  | JNum int
  | JStr string
  | JList "json list"
  | JDict "(string \<times> json) list"

type_synonym document = "(string \<times> json) list"

definition bind :: "pyerr + 'a \<Rightarrow> ('a \<Rightarrow> pyerr + 'b) \<Rightarrow> pyerr + 'b" where
  "bind m f = (case m of Inl e \<Rightarrow> Inl e | Inr x \<Rightarrow> f x)"

fun mapM :: "('a \<Rightarrow> pyerr + 'b) \<Rightarrow> 'a list \<Rightarrow> pyerr + 'b list" where
  "mapM f [] = Inr []"
| "mapM f (x # xs) = bind (f x) (\<lambda>y. bind (mapM f xs) (\<lambda>ys. Inr (y # ys)))"

text \<open>\<^verbatim>\<open>d[key] = value\<close> on a dict: an existing key keeps its position, a new one is appended.\<close>

fun dict_set :: "string \<Rightarrow> json \<Rightarrow> document \<Rightarrow> document" where
  "dict_set k v [] = [(k, v)]"
| "dict_set k v ((k', v') # d) = (if k = k' then (k, v) # d else (k', v') # dict_set k v d)"

definition dict_get :: "document \<Rightarrow> string \<Rightarrow> json option" where
  "dict_get d k = map_of d k"

text \<open>\<^verbatim>\<open>x[key]\<close> with a string key: only a dict can be indexed by a string.\<close>

fun getitem :: "json \<Rightarrow> string \<Rightarrow> pyerr + json" where
  "getitem (JDict d) k = (case map_of d k of None \<Rightarrow> Inl (KeyError k) | Some v \<Rightarrow> Inr v)"
| "getitem (JStr s) k = Inl (TypeError ''string indices must be integers'')"
| "getitem (JList xs) k = Inl (TypeError ''list indices must be integers or slices, not str'')"
| "getitem JNull k = Inl (TypeError ''NoneType object is not subscriptable'')"
| "getitem (JBool b) k = Inl (TypeError ''bool object is not subscriptable'')"
| "getitem (JNum n) k = Inl (TypeError ''int object is not subscriptable'')"

text \<open>What a \<^verbatim>\<open>for\<close> loop iterates over: the elements of a list, the keys of a dict, the
  one-character strings of a string.\<close>

fun py_iter :: "json \<Rightarrow> pyerr + json list" where
  "py_iter (JList xs) = Inr xs"
| "py_iter (JDict d) = Inr (map (\<lambda>kv. JStr (fst kv)) d)"
| "py_iter (JStr s) = Inr (map (\<lambda>c. JStr [c]) s)"
| "py_iter JNull = Inl (TypeError ''NoneType object is not iterable'')"
| "py_iter (JBool b) = Inl (TypeError ''bool object is not iterable'')"
| "py_iter (JNum n) = Inl (TypeError ''int object is not iterable'')"

fun isinstance_dict :: "json \<Rightarrow> bool" where
  "isinstance_dict (JDict d) = True"
| "isinstance_dict _ = False"

fun isinstance_list :: "json \<Rightarrow> bool" where
  "isinstance_list (JList xs) = True"
| "isinstance_list _ = False"

text \<open>\<^verbatim>\<open>needle in hay\<close> on strings: \<open>needle\<close> occurs as a contiguous substring.\<close>

fun startswith :: "string \<Rightarrow> string \<Rightarrow> bool" where
  "startswith hay [] = True"
| "startswith [] (c # cs) = False"
| "startswith (h # hs) (c # cs) = (h = c \<and> startswith hs cs)"

fun py_in :: "string \<Rightarrow> string \<Rightarrow> bool" where
  "py_in needle [] = (needle = [])"
| "py_in needle (h # hs) = (startswith (h # hs) needle \<or> py_in needle hs)"

text \<open>\<^verbatim>\<open>s.rfind(c)\<close>: the highest index of \<open>c\<close> in \<open>s\<close>, or \<open>-1\<close>.\<close>

definition py_rfind :: "string \<Rightarrow> char \<Rightarrow> int" where
  "py_rfind s c = (case filter (\<lambda>i. s ! i = c) (rev [0..<length s]) of
                     [] \<Rightarrow> - 1 | i # _ \<Rightarrow> int i)"

text \<open>\<^verbatim>\<open>s[a:b]\<close>: a negative bound counts from the end, and both are clipped to the string.\<close>

definition py_slice :: "string \<Rightarrow> int \<Rightarrow> int \<Rightarrow> string" where
  "py_slice s a b =
     (let n = int (length s);
          a' = (if a < 0 then max (n + a) 0 else min a n);
          b' = (if b < 0 then max (n + b) 0 else min b n)
      in take (nat (b' - a')) (drop (nat a') s))"

section \<open>The migration object and the remote calls it makes\<close>

text \<open>
  \<^verbatim>\<open>requests.codes\<close>: the three status codes the module compares with.
\<close>

definition codes_ok :: nat where "codes_ok = 200"
definition codes_accepted :: nat where "codes_accepted = 202"
definition codes_no_content :: nat where "codes_no_content = 204"

text \<open>
  The calls of interest are recorded, in order, in the field \<open>calls\<close> of the object:
  the session probe and the login of the session guard, the delegation of the guard to the
  operation it wraps, and the calls of the rollback path.
\<close>

datatype event =
    SessionProbe
  | VcdLogin
  | WrappedCall
  | EnableSourceOrgVdcCall
  | EnableOrgVdcPost string
  | DisableOrgVdcPost string
  | EnableAffinityRulesCall

text \<open>
  \<^verbatim>\<open>class VCDMigrationValidation\<close>: the three class attributes (all \<^verbatim>\<open>False\<close> in the class
  body), and the attributes \<^verbatim>\<open>vcdLogin\<close> sets. An object is always one on which
  \<^verbatim>\<open>restClientObj\<close> and \<^verbatim>\<open>headers\<close> exist.
\<close>

record vcd =
  ipAddress :: string
  ENABLE_SOURCE_ORG_VDC :: bool
  ENABLE_AFFINITY_RULES_IN_SOURCE_VAPP :: bool
  VCD_SESSION_CREATED :: bool
  bearerToken :: string
  calls :: "event list"

definition new_vcd :: "string \<Rightarrow> vcd" where
  "new_vcd ip = \<lparr> ipAddress = ip, ENABLE_SOURCE_ORG_VDC = False,
                  ENABLE_AFFINITY_RULES_IN_SOURCE_VAPP = False, VCD_SESSION_CREATED = False,
                  bearerToken = [], calls = [] \<rparr>"

definition record_call :: "event \<Rightarrow> vcd \<Rightarrow> vcd" where
  "record_call ev self = self\<lparr> calls := calls self @ [ev] \<rparr>"

subsection \<open>vcdLogin\<close>

text \<open>
  The answer to the login request: a response with its status code and, when present, the
  header \<^verbatim>\<open>X-VMWARE-VCLOUD-ACCESS-TOKEN\<close>, or one of the two transport errors the method
  re-raises by name.
\<close>

datatype login_reply =
    LoginResponse nat "string option"
  | LoginSSLError
  | LoginConnectionError

definition vcdLogin :: "login_reply \<Rightarrow> vcd \<Rightarrow> (pyerr + string \<times> nat) \<times> vcd" where
  "vcdLogin reply self0 =
     (let self = record_call VcdLogin self0 in
      case reply of
        LoginSSLError \<Rightarrow> (Inl SSLError, self)
      | LoginConnectionError \<Rightarrow> (Inl ConnectionError, self)
      | LoginResponse status_code token \<Rightarrow>
          if status_code = codes_ok then
            (case token of
               None \<Rightarrow> (Inl (KeyError ''X-VMWARE-VCLOUD-ACCESS-TOKEN''), self)
             | Some t \<Rightarrow>
                 (Inr (''Bearer '' @ t, status_code),
                  self\<lparr> bearerToken := ''Bearer '' @ t, VCD_SESSION_CREATED := True \<rparr>))
          else
            (Inl (Exception (''Failed to login to VMware Cloud Director '' @ ipAddress self
                             @ '' with the given credentials'')), self))"

subsection \<open>The session guard \<^verbatim>\<open>_isSessionExpired\<close>\<close>

text \<open>
  \<^verbatim>\<open>inner\<close> of the decorator. \<open>probe\<close> is what the probe \<^verbatim>\<open>GET .../session\<close> gives: the
  status code of its response, or the exception the request raised (the call is in no
  \<^verbatim>\<open>try\<close> block, so the exception leaves \<^verbatim>\<open>inner\<close>). \<open>reply\<close> is the answer a login
  would get, \<open>func\<close> the wrapped method with its arguments applied.
\<close>

definition isSessionExpired ::
  "pyerr + nat \<Rightarrow> login_reply \<Rightarrow> (vcd \<Rightarrow> (pyerr + 'a) \<times> vcd) \<Rightarrow> vcd
     \<Rightarrow> (pyerr + 'a) \<times> vcd" where
  "isSessionExpired probe reply func self0 =
     (let self = record_call SessionProbe self0 in
      case probe of
        Inl e \<Rightarrow> (Inl e, self)
      | Inr status_code \<Rightarrow>
          if status_code \<noteq> codes_ok then
            (case vcdLogin reply self of
               (Inl e, self') \<Rightarrow> (Inl e, self')
             | (Inr _, self') \<Rightarrow> func (record_call WrappedCall self'))
          else func (record_call WrappedCall self))"

section \<open>The task poller \<^verbatim>\<open>_checkTaskStatus\<close>\<close>

text \<open>
  The \<^verbatim>\<open>Task\<close> record of a task response, with the four attributes the poller reads.
  \<^verbatim>\<open>Details\<close> is present only when the server reports it.
\<close>

record task =
  t_operation :: string
  t_operationName :: string
  t_status :: string
  t_Details :: "string option"

text \<open>One polled response: its status code and the parsed \<^verbatim>\<open>Task\<close> record.\<close>

datatype poll_response = PollResponse nat task

text \<open>
  \<^verbatim>\<open>output[output.rfind("(") + 1:output.rfind(")")]\<close>
\<close>

definition extract_output :: "string \<Rightarrow> string" where
  "extract_output output =
     py_slice output (py_rfind output (CHR ''('') + 1) (py_rfind output (CHR '')''))"

text \<open>
  The loop \<^verbatim>\<open>while timeout < vcdConstants.VCD_CREATION_TIMEOUT\<close>. The two constants
  \<open>VCD_CREATION_TIMEOUT\<close> and \<open>VCD_CREATION_INTERVAL\<close> belong to the module
  \<^verbatim>\<open>vcdConstants\<close> and are parameters here, in whole units of time; the accumulated
  waiting time \<open>timeout\<close> starts at \<open>0\<close> and grows by the interval after every poll
  (\<^verbatim>\<open>time.sleep\<close> itself has no effect on the result). \<open>responses n\<close> is the response to
  the \<open>n\<close>-th request, \<open>n\<close> counts the requests made so far. The loop can run forever
  (when the interval is not positive), so not returning is the value \<open>None\<close>; a
  normal return is \<open>Some (Inr v)\<close> with \<open>v\<close> the returned value (\<open>None\<close> for the
  plain \<^verbatim>\<open>return\<close>), a raised exception is \<open>Some (Inl e)\<close>.
\<close>

partial_function (option) poll_loop ::
  "int \<Rightarrow> int \<Rightarrow> string \<Rightarrow> bool \<Rightarrow> (nat \<Rightarrow> poll_response) \<Rightarrow> nat \<Rightarrow> int \<Rightarrow> string
     \<Rightarrow> (pyerr + string option) option" where
  "poll_loop VCD_CREATION_TIMEOUT VCD_CREATION_INTERVAL taskName returnOutput responses n
      timeout output =
     (if timeout < VCD_CREATION_TIMEOUT then
        (case responses n of PollResponse status_code responseDict \<Rightarrow>
           if status_code = codes_ok then
             (if py_in taskName (t_operationName responseDict) then
                (if t_status responseDict = ''success'' then
                   (if \<not> returnOutput then Some (Inr None)
                    else Some (Inr (Some (extract_output (t_operation responseDict)))))
                 else if t_status responseDict = ''error'' then
                   (case t_Details responseDict of
                      None \<Rightarrow> Some (Inl (KeyError ''Details''))
                    | Some details \<Rightarrow> Some (Inl (Exception details)))
                 else
                   poll_loop VCD_CREATION_TIMEOUT VCD_CREATION_INTERVAL taskName returnOutput
                     responses (Suc n) (timeout + VCD_CREATION_INTERVAL)
                     (if returnOutput then extract_output (t_operation responseDict) else output))
              else
                poll_loop VCD_CREATION_TIMEOUT VCD_CREATION_INTERVAL taskName returnOutput
                  responses (Suc n) (timeout + VCD_CREATION_INTERVAL)
                  (if returnOutput then extract_output (t_operation responseDict) else output))
           else
             poll_loop VCD_CREATION_TIMEOUT VCD_CREATION_INTERVAL taskName returnOutput
               responses (Suc n) (timeout + VCD_CREATION_INTERVAL) output)
      else
        Some (Inl (Exception (''Task '' @ taskName
                                @ '' could not complete in the allocated time.''))))"

text \<open>
  The body of \<^verbatim>\<open>_checkTaskStatus\<close>: \<^verbatim>\<open>timeout = 0.0\<close>, \<^verbatim>\<open>output = ''\<close>, then the loop.
  The method carries the decorator \<^verbatim>\<open>@_isSessionExpired\<close>, which runs before this body.
\<close>

definition checkTaskStatus ::
  "int \<Rightarrow> int \<Rightarrow> (nat \<Rightarrow> poll_response) \<Rightarrow> string \<Rightarrow> bool \<Rightarrow> (pyerr + string option) option" where
  "checkTaskStatus VCD_CREATION_TIMEOUT VCD_CREATION_INTERVAL responses taskName returnOutput =
     poll_loop VCD_CREATION_TIMEOUT VCD_CREATION_INTERVAL taskName returnOutput responses 0 0 []"

text \<open>
  What one fetched response means to the poller: a record counts only when the response
  has status \<open>ok\<close> and \<open>taskName\<close> occurs in its operation name.
\<close>

definition matching :: "string \<Rightarrow> poll_response \<Rightarrow> bool" where
  "matching taskName r =
     (case r of PollResponse status_code responseDict \<Rightarrow>
        status_code = codes_ok \<and> py_in taskName (t_operationName responseDict))"

definition response_status :: "poll_response \<Rightarrow> string" where
  "response_status r = (case r of PollResponse status_code responseDict \<Rightarrow> t_status responseDict)"

definition is_success :: "string \<Rightarrow> poll_response \<Rightarrow> bool" where
  "is_success taskName r = (matching taskName r \<and> response_status r = ''success'')"

definition is_error :: "string \<Rightarrow> poll_response \<Rightarrow> bool" where
  "is_error taskName r = (matching taskName r \<and> response_status r = ''error'')"

definition is_terminal :: "string \<Rightarrow> poll_response \<Rightarrow> bool" where
  "is_terminal taskName r = (is_success taskName r \<or> is_error taskName r)"

section \<open>The shared document \<^verbatim>\<open>apiOutput.json\<close>\<close>

text \<open>
  The file holds one JSON object. \<open>None\<close> is the absent file. \<^verbatim>\<open>json.load\<close> on the
  file opened for reading raises \<^verbatim>\<open>FileNotFoundError\<close> when there is none.
\<close>

type_synonym apiOutput = "document option"

definition json_load :: "apiOutput \<Rightarrow> pyerr + document" where
  "json_load file = (case file of None \<Rightarrow> Inl FileNotFoundError | Some data \<Rightarrow> Inr data)"

text \<open>
  Each writer of the file loads it into \<^verbatim>\<open>data\<close>, assigns and dumps \<^verbatim>\<open>data\<close>. The
  following functions are the lines of each writer between the load and the dump: from
  the loaded \<^verbatim>\<open>data\<close> to the dumped one.
\<close>

text \<open>\<^verbatim>\<open>getOrgVDCUrl\<close>: \<^verbatim>\<open>if not data and saveResponse: data = {'Organization': ...}\<close>, and
  only then a dump.\<close>

definition getOrgVDCUrl_store :: "bool \<Rightarrow> json \<Rightarrow> document \<Rightarrow> document" where
  "getOrgVDCUrl_store saveResponse adminOrg data =
     (if data = [] \<and> saveResponse then [(''Organization'', adminOrg)] else data)"

text \<open>\<^verbatim>\<open>getOrgVDCDetails\<close>: \<^verbatim>\<open>data[orgVDCType] = responseDict['AdminVdc']\<close>\<close>

definition getOrgVDCDetails_store :: "string \<Rightarrow> json \<Rightarrow> document \<Rightarrow> document" where
  "getOrgVDCDetails_store orgVDCType adminVdc data = dict_set orgVDCType adminVdc data"

text \<open>\<^verbatim>\<open>getExternalNetwork\<close>: the key is chosen from the backing type of the network, then
  overridden for the dummy network; \<^verbatim>\<open>data[key] = response\<close>\<close>

definition getExternalNetwork_key :: "string \<Rightarrow> bool \<Rightarrow> string" where
  "getExternalNetwork_key backingType isDummyNetwork =
     (let key = (if backingType = ''NSXT_TIER0'' then ''targetExternalNetwork''
                 else ''sourceExternalNetwork'')
      in if isDummyNetwork then ''dummyExternalNetwork'' else key)"

definition getExternalNetwork_store :: "string \<Rightarrow> bool \<Rightarrow> json \<Rightarrow> document \<Rightarrow> document" where
  "getExternalNetwork_store backingType isDummyNetwork response data =
     dict_set (getExternalNetwork_key backingType isDummyNetwork) response data"

text \<open>\<^verbatim>\<open>getProviderVDCDetails\<close>: \<^verbatim>\<open>data[key] = responseDict['ProviderVdc']\<close>\<close>

definition getProviderVDCDetails_key :: "bool \<Rightarrow> string" where
  "getProviderVDCDetails_key isNSXTbacked =
     (if isNSXTbacked then ''targetProviderVDC'' else ''sourceProviderVDC'')"

definition getProviderVDCDetails_store :: "bool \<Rightarrow> json \<Rightarrow> document \<Rightarrow> document" where
  "getProviderVDCDetails_store isNSXTbacked providerVdc data =
     dict_set (getProviderVDCDetails_key isNSXTbacked) providerVdc data"

text \<open>\<^verbatim>\<open>validateVMPlacementPolicy\<close>\<close>

definition validateVMPlacementPolicy_store :: "json \<Rightarrow> document \<Rightarrow> document" where
  "validateVMPlacementPolicy_store policies data =
     dict_set ''sourceOrgVDCComputePolicyList'' policies data"

text \<open>\<^verbatim>\<open>getOrgVDCAffinityRules\<close>\<close>

definition getOrgVDCAffinityRules_store :: "json \<Rightarrow> document \<Rightarrow> document" where
  "getOrgVDCAffinityRules_store rules data = dict_set ''sourceVMAffinityRules'' rules data"

text \<open>\<^verbatim>\<open>validateSingleEdgeGatewayExistForOrgVDC\<close>\<close>

definition validateSingleEdgeGatewayExistForOrgVDC_store :: "json \<Rightarrow> document \<Rightarrow> document" where
  "validateSingleEdgeGatewayExistForOrgVDC_store gateway data =
     dict_set ''sourceEdgeGateway'' gateway data"

text \<open>\<^verbatim>\<open>getOrgVDCNetworks\<close>: \<^verbatim>\<open>data[orgVDCNetworkType] = orgVDCNetworkList\<close>\<close>

definition getOrgVDCNetworks_store :: "string \<Rightarrow> json \<Rightarrow> document \<Rightarrow> document" where
  "getOrgVDCNetworks_store orgVDCNetworkType orgVDCNetworkList data =
     dict_set orgVDCNetworkType orgVDCNetworkList data"

text \<open>Truth value of a Python object, as tested by \<^verbatim>\<open>if\<close> and \<^verbatim>\<open>not\<close>.\<close>

fun py_truthy :: "json \<Rightarrow> bool" where
  "py_truthy JNull = False"
| "py_truthy (JBool b) = b"
| "py_truthy (JNum n) = (n \<noteq> 0)"
| "py_truthy (JStr s) = (s \<noteq> [])"
| "py_truthy (JList xs) = (xs \<noteq> [])"
| "py_truthy (JDict d) = (d \<noteq> [])"

text \<open>\<^verbatim>\<open>getEdgeGatewayServices\<close>: four assignments, a fifth when the DNS configuration is
  not empty, then one dump.\<close>

definition getEdgeGatewayServices_store ::
  "json \<Rightarrow> json \<Rightarrow> json \<Rightarrow> json \<Rightarrow> json \<Rightarrow> document \<Rightarrow> document" where
  "getEdgeGatewayServices_store dhcpConfigDict firewallConfigDict natConfigDict
       routingConfigDict dnsConfigDict data =
     (let data1 = dict_set ''sourceEdgeGatewayDHCP'' dhcpConfigDict data;
          data2 = dict_set ''sourceEdgeGatewayFirewall'' firewallConfigDict data1;
          data3 = dict_set ''sourceEdgeGatewayNAT'' natConfigDict data2;
          data4 = dict_set ''sourceEdgeGatewayRouting'' routingConfigDict data3
      in if py_truthy dnsConfigDict then dict_set ''sourceEdgeGatewayDNS'' dnsConfigDict data4
         else data4)"

section \<open>Disabling and re-enabling the source Org VDC\<close>

text \<open>\<^verbatim>\<open>s.split(sep)\<close> with a one-character separator.\<close>

fun py_split :: "char \<Rightarrow> string \<Rightarrow> string list" where
  "py_split sep [] = [[]]"
| "py_split sep (c # cs) =
     (if c = sep then [] # py_split sep cs
      else (case py_split sep cs of [] \<Rightarrow> [[c]] | w # ws \<Rightarrow> (c # w) # ws))"

text \<open>\<^verbatim>\<open>orgVDCId.split(':')[-1]\<close>\<close>

definition id_suffix :: "string \<Rightarrow> string" where
  "id_suffix orgVDCId = last (py_split (CHR '':'') orgVDCId)"

text \<open>
  The answer to a \<^verbatim>\<open>POST\<close> that enables or disables an Org VDC: the status code and the
  \<^verbatim>\<open>@message\<close> of the \<^verbatim>\<open>Error\<close> element of the body.
\<close>

datatype reply = Reply nat string

text \<open>\<^verbatim>\<open>data['sourceOrgVDC'][attribute]\<close>\<close>

definition sourceOrgVDC_attribute :: "document \<Rightarrow> string \<Rightarrow> pyerr + json" where
  "sourceOrgVDC_attribute data attribute =
     bind (getitem (JDict data) ''sourceOrgVDC'') (\<lambda>vdc. getitem vdc attribute)"

text \<open>\<^verbatim>\<open>enableSourceOrgVdc\<close> (not decorated).\<close>

definition enableSourceOrgVdc ::
  "apiOutput \<Rightarrow> reply \<Rightarrow> string \<Rightarrow> vcd \<Rightarrow> (pyerr + unit) \<times> vcd" where
  "enableSourceOrgVdc file post_reply sourceOrgVdcId self0 =
     (let self = record_call EnableSourceOrgVdcCall self0 in
      case json_load file of
        Inl e \<Rightarrow> (Inl e, self)
      | Inr data \<Rightarrow>
          (case sourceOrgVDC_attribute data ''IsEnabled'' of
             Inl e \<Rightarrow> (Inl e, self)
           | Inr isEnabled \<Rightarrow>
               if isEnabled = JStr ''true'' then
                 (let self' = record_call (EnableOrgVdcPost (id_suffix sourceOrgVdcId)) self in
                  case post_reply of Reply status_code message \<Rightarrow>
                    if status_code = codes_no_content then (Inr (), self')
                    else (Inl (Exception (''Failed to Enable Source Org VDC: '' @ message)),
                          self'))
               else (Inr (), self)))"

text \<open>
  The body of \<^verbatim>\<open>disableOrgVDC\<close>. With \<open>isSourceDisable\<close> the source Org VDC is disabled
  unless the document says it is disabled already; without it the target Org VDC
  is disabled when the source one was.
\<close>

definition disableOrgVDC_body ::
  "apiOutput \<Rightarrow> reply \<Rightarrow> string \<Rightarrow> bool \<Rightarrow> vcd \<Rightarrow> (pyerr + unit) \<times> vcd" where
  "disableOrgVDC_body file post_reply orgVDCId isSourceDisable self =
     (case json_load file of
        Inl e \<Rightarrow> (Inl e, self)
      | Inr data \<Rightarrow>
          (case sourceOrgVDC_attribute data ''IsEnabled'' of
             Inl e \<Rightarrow> (Inl e, self)
           | Inr isEnabled \<Rightarrow>
               (case sourceOrgVDC_attribute data ''@name'' of
                  Inl e \<Rightarrow> (Inl e, self)
                | Inr orgVDCName \<Rightarrow>
                    if isSourceDisable then
                      (if isEnabled = JStr ''false'' then (Inr (), self)
                       else
                         (let self' = record_call (DisableOrgVdcPost (id_suffix orgVDCId)) self in
                          case post_reply of Reply status_code message \<Rightarrow>
                            if status_code = codes_no_content then (Inr (), self')
                            else (Inl (Exception (''Failed to disable Source Org VDC - ''
                                                  @ message)), self')))
                    else
                      (if isEnabled = JStr ''false'' then
                         (case bind (getitem (JDict data) ''targetOrgVDC'')
                                 (\<lambda>vdc. getitem vdc ''@name'') of
                            Inl e \<Rightarrow> (Inl e, self)
                          | Inr targetOrgVDCName \<Rightarrow>
                              (let self' = record_call (DisableOrgVdcPost (id_suffix orgVDCId)) self
                               in case post_reply of Reply status_code message \<Rightarrow>
                                 if status_code = codes_no_content then (Inr (), self')
                                 else (Inl (Exception (''Failed to disable Target Org VDC - ''
                                                       @ message)), self')))
                       else (Inr (), self)))))"

text \<open>\<^verbatim>\<open>disableOrgVDC\<close> as decorated with \<^verbatim>\<open>@_isSessionExpired\<close>.\<close>

definition disableOrgVDC ::
  "pyerr + nat \<Rightarrow> login_reply \<Rightarrow> apiOutput \<Rightarrow> reply \<Rightarrow> string \<Rightarrow> bool \<Rightarrow> vcd \<Rightarrow> (pyerr + unit) \<times> vcd" where
  "disableOrgVDC probe login file post_reply orgVDCId isSourceDisable =
     isSessionExpired probe login
       (disableOrgVDC_body file post_reply orgVDCId isSourceDisable)"

section \<open>The pipeline \<^verbatim>\<open>preMigrationValidation\<close> and its rollback\<close>

text \<open>
  \<^verbatim>\<open>enableOrDisableSourceAffinityRules\<close> wraps its body in
  \<^verbatim>\<open>try: ... except Exception: self.ENABLE_SOURCE_ORG_VDC = True; raise\<close>. The requests the
  body makes for each affinity rule are summarised by what the body does in the end: it
  returns, or it raises \<open>e\<close>.
\<close>

definition enableOrDisableSourceAffinityRules_body ::
  "pyerr + unit \<Rightarrow> vcd \<Rightarrow> (pyerr + unit) \<times> vcd" where
  "enableOrDisableSourceAffinityRules_body body self =
     (case body of
        Inl e \<Rightarrow> (Inl e, self\<lparr> ENABLE_SOURCE_ORG_VDC := True \<rparr>)
      | Inr u \<Rightarrow> (Inr u, self))"

definition enableOrDisableSourceAffinityRules ::
  "pyerr + nat \<Rightarrow> login_reply \<Rightarrow> pyerr + unit \<Rightarrow> vcd \<Rightarrow> (pyerr + unit) \<times> vcd" where
  "enableOrDisableSourceAffinityRules probe login body =
     isSessionExpired probe login (enableOrDisableSourceAffinityRules_body body)"

text \<open>
  What the world answers during a rollback: the document on disk, the answer to the
  \<^verbatim>\<open>POST\<close> that enables the Org VDC, and, for the call that enables the affinity rules,
  the session probe, the login and the outcome of the body.
\<close>

record rollback_env =
  r_file :: apiOutput
  r_enable_reply :: reply
  r_probe :: "pyerr + nat"
  r_login :: login_reply
  r_affinity_body :: "pyerr + unit"

text \<open>
  The handler \<^verbatim>\<open>except Exception as err:\<close> of \<^verbatim>\<open>preMigrationValidation\<close>.
  \<open>sourceOrgVDCId\<close> is the local variable of that name, \<open>None\<close> while it is unbound.
  The handler ends with a bare \<^verbatim>\<open>raise\<close>, which re-raises \<open>err\<close>; an exception raised
  inside the handler leaves it at once.
\<close>

definition rollback ::
  "rollback_env \<Rightarrow> string option \<Rightarrow> pyerr \<Rightarrow> vcd \<Rightarrow> pyerr \<times> vcd" where
  "rollback env sourceOrgVDCId err self =
     (case (if ENABLE_SOURCE_ORG_VDC self then
              (case sourceOrgVDCId of
                 None \<Rightarrow> (Inl (UnboundLocalError ''sourceOrgVDCId''), self)
               | Some i \<Rightarrow> enableSourceOrgVdc (r_file env) (r_enable_reply env) i self)
            else (Inr (), self)) of
        (Inl e, self1) \<Rightarrow> (e, self1)
      | (Inr _, self1) \<Rightarrow>
          (case (if ENABLE_AFFINITY_RULES_IN_SOURCE_VAPP self1 then
                   (case sourceOrgVDCId of
                      None \<Rightarrow> (Inl (UnboundLocalError ''sourceOrgVDCId''), self1)
                    | Some i \<Rightarrow>
                        enableOrDisableSourceAffinityRules (r_probe env) (r_login env)
                          (r_affinity_body env) (record_call EnableAffinityRulesCall self1))
                 else (Inr (), self1)) of
             (Inl e, self2) \<Rightarrow> (e, self2)
           | (Inr _, self2) \<Rightarrow> (err, self2)))"

text \<open>The compensating calls among the recorded calls.\<close>

fun is_compensation :: "event \<Rightarrow> bool" where
  "is_compensation EnableSourceOrgVdcCall = True"
| "is_compensation EnableAffinityRulesCall = True"
| "is_compensation _ = False"

definition compensations :: "vcd \<Rightarrow> event list" where
  "compensations self = filter is_compensation (calls self)"

subsection \<open>The steps\<close>

text \<open>The calls in the \<^verbatim>\<open>try\<close> block of \<^verbatim>\<open>preMigrationValidation\<close>, in its order.\<close>

datatype step =
    S_vcdLogin
  | S_getOrgUrl
  | S_getOrgVDCDetails
  | S_validateNoTargetOrgVDCExists
  | S_validateNoEmptyVappsExistInSourceOrgVDC
  | S_validateSourceSuspendedVMsInVapp
  | S_validateNoVappNetworksExist
  | S_validateOrgVDCFastProvisioned
  | S_getExternalNetwork_source
  | S_getExternalNetwork_target
  | S_getExternalNetwork_dummy
  | S_validateDedicatedExternalNetwork
  | S_getProviderVDCId_source
  | S_getProviderVDCDetails_source
  | S_validateSourceNetworkPools
  | S_validateOrgVDCNSXVbacked
  | S_getProviderVDCId_target
  | S_getProviderVDCDetails_target
  | S_validateHardwareVersion
  | S_validateTargetProviderVdc
  | S_disableOrgVDC
  | S_validateVMPlacementPolicy
  | S_validateStorageProfiles
  | S_validateExternalNetworkSubnets
  | S_getOrgVDCAffinityRules
  | S_enableOrDisableSourceAffinityRules
  | S_validateSingleEdgeGatewayExistForOrgVDC
  | S_getOrgVDCNetworks
  | S_validateDHCPEnabledonIsolatedVdcNetworks
  | S_validateOrgVDCNetworkShared
  | S_validateOrgVDCNetworkDirect
  | S_getEdgeGatewayServices
  | S_validateIndependentDisksDoesNotExistsInOrgVDC

definition pipeline :: "step list" where
  "pipeline =
     [S_vcdLogin, S_getOrgUrl, S_getOrgVDCDetails, S_validateNoTargetOrgVDCExists,
      S_validateNoEmptyVappsExistInSourceOrgVDC, S_validateSourceSuspendedVMsInVapp,
      S_validateNoVappNetworksExist, S_validateOrgVDCFastProvisioned,
      S_getExternalNetwork_source, S_getExternalNetwork_target, S_getExternalNetwork_dummy,
      S_validateDedicatedExternalNetwork, S_getProviderVDCId_source,
      S_getProviderVDCDetails_source, S_validateSourceNetworkPools,
      S_validateOrgVDCNSXVbacked, S_getProviderVDCId_target, S_getProviderVDCDetails_target,
      S_validateHardwareVersion, S_validateTargetProviderVdc, S_disableOrgVDC,
      S_validateVMPlacementPolicy, S_validateStorageProfiles,
      S_validateExternalNetworkSubnets, S_getOrgVDCAffinityRules,
      S_enableOrDisableSourceAffinityRules, S_validateSingleEdgeGatewayExistForOrgVDC,
      S_getOrgVDCNetworks, S_validateDHCPEnabledonIsolatedVdcNetworks,
      S_validateOrgVDCNetworkShared, S_validateOrgVDCNetworkDirect,
      S_getEdgeGatewayServices, S_validateIndependentDisksDoesNotExistsInOrgVDC]"

text \<open>The methods carrying the decorator \<^verbatim>\<open>@_isSessionExpired\<close>.\<close>

fun decorated :: "step \<Rightarrow> bool" where
  "decorated S_validateOrgVDCFastProvisioned = True"
| "decorated S_getExternalNetwork_source = True"
| "decorated S_getExternalNetwork_target = True"
| "decorated S_getExternalNetwork_dummy = True"
| "decorated S_getProviderVDCId_source = True"
| "decorated S_getProviderVDCId_target = True"
| "decorated S_validateTargetProviderVdc = True"
| "decorated S_disableOrgVDC = True"
| "decorated S_validateVMPlacementPolicy = True"
| "decorated S_validateStorageProfiles = True"
| "decorated S_validateExternalNetworkSubnets = True"
| "decorated S_getOrgVDCAffinityRules = True"
| "decorated S_enableOrDisableSourceAffinityRules = True"
| "decorated S_validateSingleEdgeGatewayExistForOrgVDC = True"
| "decorated S_getOrgVDCNetworks = True"
| "decorated S_validateDHCPEnabledonIsolatedVdcNetworks = True"
| "decorated S_validateOrgVDCNetworkShared = True"
| "decorated S_validateOrgVDCNetworkDirect = True"
| "decorated S_getEdgeGatewayServices = True"
| "decorated _ = False"

text \<open>
  The assignments in the \<^verbatim>\<open>except Exception:\<close> clause of each method, as the pair
  (sets \<open>ENABLE_SOURCE_ORG_VDC\<close>, sets \<open>ENABLE_AFFINITY_RULES_IN_SOURCE_VAPP\<close>). Every
  assignment to either attribute in the module is one of these, and assigns \<^verbatim>\<open>True\<close>.
\<close>

fun except_sets :: "step \<Rightarrow> bool \<times> bool" where
  "except_sets S_validateVMPlacementPolicy = (True, False)"
| "except_sets S_validateStorageProfiles = (True, False)"
| "except_sets S_validateExternalNetworkSubnets = (True, False)"
| "except_sets S_getOrgVDCAffinityRules = (True, False)"
| "except_sets S_enableOrDisableSourceAffinityRules = (True, False)"
| "except_sets S_validateSingleEdgeGatewayExistForOrgVDC = (True, True)"
| "except_sets S_validateDHCPEnabledonIsolatedVdcNetworks = (True, True)"
| "except_sets S_validateOrgVDCNetworkShared = (True, True)"
| "except_sets S_validateOrgVDCNetworkDirect = (True, True)"
| "except_sets S_getEdgeGatewayServices = (True, True)"
| "except_sets S_validateIndependentDisksDoesNotExistsInOrgVDC = (True, True)"
| "except_sets _ = (False, False)"

text \<open>
  The body of a step: what it does with the remote system is summarised by its outcome
  \<open>body\<close>, the value it returns or the exception raised inside its \<^verbatim>\<open>try\<close> block; on
  an exception its \<^verbatim>\<open>except\<close> clause makes its assignments and re-raises.
\<close>

definition step_body :: "step \<Rightarrow> pyerr + string \<Rightarrow> vcd \<Rightarrow> (pyerr + string) \<times> vcd" where
  "step_body s body self =
     (case body of
        Inr v \<Rightarrow> (Inr v, self)
      | Inl e \<Rightarrow>
          (Inl e,
           (let self1 = (if fst (except_sets s) then self\<lparr> ENABLE_SOURCE_ORG_VDC := True \<rparr>
                         else self)
            in if snd (except_sets s)
               then self1\<lparr> ENABLE_AFFINITY_RULES_IN_SOURCE_VAPP := True \<rparr> else self1)))"

text \<open>
  What the world answers during one step: to the session probe, to a login, and the
  outcome of the body.
\<close>

record step_env =
  s_probe :: "pyerr + nat"
  s_login :: login_reply
  s_body :: "pyerr + string"

definition run_step :: "step_env \<Rightarrow> step \<Rightarrow> vcd \<Rightarrow> (pyerr + string) \<times> vcd" where
  "run_step env s self =
     (if s = S_vcdLogin then
        (case vcdLogin (s_login env) self of
           (Inl e, self') \<Rightarrow> (Inl e, self')
         | (Inr r, self') \<Rightarrow> (Inr (fst r), self'))
      else if decorated s then
        isSessionExpired (s_probe env) (s_login env) (step_body s (s_body env)) self
      else step_body s (s_body env) self)"

text \<open>
  The \<^verbatim>\<open>try\<close> block: the steps run in order and the first exception ends it.
  \<open>sourceOrgVDCId\<close> is bound by the value \<^verbatim>\<open>getOrgVDCDetails\<close> returns.
\<close>

fun run_steps ::
  "(step \<Rightarrow> step_env) \<Rightarrow> step list \<Rightarrow> string option \<Rightarrow> vcd
     \<Rightarrow> (pyerr + unit) \<times> string option \<times> vcd" where
  "run_steps envs [] sourceOrgVDCId self = (Inr (), sourceOrgVDCId, self)"
| "run_steps envs (s # ss) sourceOrgVDCId self =
     (case run_step (envs s) s self of
        (Inl e, self') \<Rightarrow> (Inl e, sourceOrgVDCId, self')
      | (Inr v, self') \<Rightarrow>
          run_steps envs ss (if s = S_getOrgVDCDetails then Some v else sourceOrgVDCId) self')"

text \<open>
  \<^verbatim>\<open>preMigrationValidation\<close>: of the tuple it returns, the first component
  \<open>sourceOrgVDCId\<close> is kept.
\<close>

definition preMigrationValidation ::
  "(step \<Rightarrow> step_env) \<Rightarrow> rollback_env \<Rightarrow> vcd \<Rightarrow> (pyerr + string option) \<times> vcd" where
  "preMigrationValidation envs renv self =
     (case run_steps envs pipeline None self of
        (Inr _, sourceOrgVDCId, self') \<Rightarrow> (Inr sourceOrgVDCId, self')
      | (Inl err, sourceOrgVDCId, self') \<Rightarrow>
          (case rollback renv sourceOrgVDCId err self' of (e, self'') \<Rightarrow> (Inl e, self'')))"

subsection \<open>What the rollback observes\<close>

text \<open>
  The outcome of the first compensation of the handler, the call
  \<^verbatim>\<open>self.enableSourceOrgVdc(sourceOrgVDCId)\<close>: reading the unbound local variable raises
  before any call is made.
\<close>

definition enable_outcome :: "rollback_env \<Rightarrow> string option \<Rightarrow> vcd \<Rightarrow> pyerr + unit" where
  "enable_outcome env sourceOrgVDCId self =
     (case sourceOrgVDCId of
        None \<Rightarrow> Inl (UnboundLocalError ''sourceOrgVDCId'')
      | Some i \<Rightarrow> fst (enableSourceOrgVdc (r_file env) (r_enable_reply env) i self))"

text \<open>
  The outcome of the second one, the call
  \<^verbatim>\<open>self.enableOrDisableSourceAffinityRules(sourceOrgVDCId, enable=True)\<close>.
\<close>

definition affinity_outcome :: "rollback_env \<Rightarrow> string option \<Rightarrow> vcd \<Rightarrow> pyerr + unit" where
  "affinity_outcome env sourceOrgVDCId self =
     (case sourceOrgVDCId of
        None \<Rightarrow> Inl (UnboundLocalError ''sourceOrgVDCId'')
      | Some i \<Rightarrow> fst (enableOrDisableSourceAffinityRules (r_probe env) (r_login env)
                         (r_affinity_body env) self))"

text \<open>The requests among the recorded calls that enable or disable an Org VDC.\<close>

fun is_enable_post :: "event \<Rightarrow> bool" where
  "is_enable_post (EnableOrgVdcPost i) = True"
| "is_enable_post _ = False"

fun is_disable_post :: "event \<Rightarrow> bool" where
  "is_disable_post (DisableOrgVdcPost i) = True"
| "is_disable_post _ = False"

text \<open>
  After the first compensation has returned (or was not due), the handler goes on with the
  second one from the state \<open>self1\<close>.
\<close>

definition rollback_second :: "rollback_env \<Rightarrow> string \<Rightarrow> pyerr \<Rightarrow> vcd \<Rightarrow> pyerr \<times> vcd" where
  "rollback_second env i err self1 =
     (if ENABLE_AFFINITY_RULES_IN_SOURCE_VAPP self1 then
        (case enableOrDisableSourceAffinityRules (r_probe env) (r_login env)
                (r_affinity_body env) (record_call EnableAffinityRulesCall self1) of
           (Inl e, self2) \<Rightarrow> (e, self2)
         | (Inr _, self2) \<Rightarrow> (err, self2))
      else (err, self1))"

text \<open>No flag that is set in \<open>self\<close> is unset in \<open>self'\<close>.\<close>

definition flags_kept :: "vcd \<Rightarrow> vcd \<Rightarrow> bool" where
  "flags_kept self self' =
     ((ENABLE_SOURCE_ORG_VDC self \<longrightarrow> ENABLE_SOURCE_ORG_VDC self')
      \<and> (ENABLE_AFFINITY_RULES_IN_SOURCE_VAPP self \<longrightarrow> ENABLE_AFFINITY_RULES_IN_SOURCE_VAPP self'))"

section \<open>Checks that read a collection decoded from XML\<close>

text \<open>
  \<^verbatim>\<open>xmltodict\<close> decodes an element that occurs once as a dict and one that occurs several
  times as a list of dicts. The checks that cope with both write
  \<^verbatim>\<open>[x] if isinstance(x, dict) else x\<close>, or the same test on \<^verbatim>\<open>list\<close>.
\<close>

definition list_if_dict :: "json \<Rightarrow> json" where
  "list_if_dict x = (if isinstance_dict x then JList [x] else x)"

definition list_unless_list :: "json \<Rightarrow> json" where
  "list_unless_list x = (if isinstance_list x then x else JList [x])"

text \<open>\<^verbatim>\<open>x[k1][k2]...[kn]\<close>\<close>

fun getpath :: "json \<Rightarrow> string list \<Rightarrow> pyerr + json" where
  "getpath x [] = Inr x"
| "getpath x (k # ks) = bind (getitem x k) (\<lambda>y. getpath y ks)"

text \<open>A \<^verbatim>\<open>for\<close> loop that updates local variables and may raise.\<close>

fun foldM :: "('s \<Rightarrow> 'a \<Rightarrow> pyerr + 's) \<Rightarrow> 's \<Rightarrow> 'a list \<Rightarrow> pyerr + 's" where
  "foldM f s [] = Inr s"
| "foldM f s (x # xs) = bind (f s x) (\<lambda>s'. foldM f s' xs)"

fun py_len :: "json \<Rightarrow> pyerr + nat" where
  "py_len (JList xs) = Inr (length xs)"
| "py_len (JDict d) = Inr (length d)"
| "py_len (JStr s) = Inr (length s)"
| "py_len JNull = Inl (TypeError ''object of type NoneType has no len()'')"
| "py_len (JBool b) = Inl (TypeError ''object of type bool has no len()'')"
| "py_len (JNum n) = Inl (TypeError ''object of type int has no len()'')"

subsection \<open>getOrgVDCUrl\<close>

text \<open>
  The loop of \<^verbatim>\<open>getOrgVDCUrl\<close> over the Org VDCs of the organization, from
  \<^verbatim>\<open>responseDict = responseDict['AdminOrg']['Vdcs']['Vdc']\<close> to the \<^verbatim>\<open>return\<close>: the
  \<^verbatim>\<open>@href\<close> of the last record named \<open>orgVDCName\<close>.
\<close>

definition getOrgVDCUrl_lookup :: "json \<Rightarrow> string \<Rightarrow> string \<Rightarrow> pyerr + json" where
  "getOrgVDCUrl_lookup responseDict orgUrl orgVDCName =
     bind (getpath responseDict [''AdminOrg'', ''Vdcs'', ''Vdc'']) (\<lambda>vdc.
     bind (py_iter (list_if_dict vdc)) (\<lambda>records.
     bind (foldM (\<lambda>orgVDCUrl response.
                    bind (getitem response ''@name'') (\<lambda>name.
                      if name = JStr orgVDCName then getitem response ''@href''
                      else Inr orgVDCUrl))
                 (JStr []) records) (\<lambda>orgVDCUrl.
     if \<not> py_truthy orgVDCUrl then
       Inl (Exception (''Org VDC '' @ orgVDCName @ '' doesnot belong to this organization ''
                       @ orgUrl))
     else Inr orgVDCUrl)))"

text \<open>
  \<^verbatim>\<open>getOrgVDCUrl\<close>: \<open>status_code\<close> and \<open>responseDict\<close> are the response to the request
  for the organization.
\<close>

definition getOrgVDCUrl ::
  "apiOutput \<Rightarrow> nat \<Rightarrow> json \<Rightarrow> string \<Rightarrow> string \<Rightarrow> bool \<Rightarrow> (pyerr + json) \<times> apiOutput" where
  "getOrgVDCUrl file status_code responseDict orgUrl orgVDCName saveResponse =
     (if status_code = codes_ok then
        (let data = (case file of None \<Rightarrow> [] | Some d \<Rightarrow> d) in
         case (if data = [] \<and> saveResponse then
                 bind (getitem responseDict ''AdminOrg'') (\<lambda>adminOrg.
                   Inr (Some (getOrgVDCUrl_store saveResponse adminOrg data)))
               else Inr file) of
           Inl e \<Rightarrow> (Inl e, file)
         | Inr file' \<Rightarrow> (getOrgVDCUrl_lookup responseDict orgUrl orgVDCName, file'))
      else
        (Inl (Exception (''Failed to retrieve Organization VDC '' @ orgVDCName @ '' url'')),
         file))"

subsection \<open>validateStorageProfiles\<close>

text \<open>
  \<^verbatim>\<open>[sourceDict['@name'] for sourceDict in source for targetDict in target
     if sourceDict['@name'] == targetDict['@name']]\<close>
\<close>

definition storagePoliciesFound :: "json \<Rightarrow> json \<Rightarrow> pyerr + json list" where
  "storagePoliciesFound sourceOrgVDCStorageProfile targetPVDCStorageProfile =
     bind (py_iter sourceOrgVDCStorageProfile) (\<lambda>sources.
     bind (mapM (\<lambda>sourceDict.
             bind (py_iter targetPVDCStorageProfile) (\<lambda>targets.
             bind (mapM (\<lambda>targetDict.
                     bind (getitem sourceDict ''@name'') (\<lambda>a.
                     bind (getitem targetDict ''@name'') (\<lambda>b.
                       if a = b then bind (getitem sourceDict ''@name'') (\<lambda>n. Inr [n])
                       else Inr []))) targets) (\<lambda>rows.
             Inr (concat rows)))) sources) (\<lambda>rows.
     Inr (concat rows)))"

text \<open>The \<^verbatim>\<open>try\<close> block of \<^verbatim>\<open>validateStorageProfiles\<close>.\<close>

definition validateStorageProfiles_try :: "apiOutput \<Rightarrow> pyerr + unit" where
  "validateStorageProfiles_try file =
     bind (json_load file) (\<lambda>data.
     bind (getpath (JDict data) [''sourceOrgVDC'', ''VdcStorageProfiles'', ''VdcStorageProfile''])
       (\<lambda>source.
     bind (getpath (JDict data)
             [''targetProviderVDC'', ''StorageProfiles'', ''ProviderVdcStorageProfile''])
       (\<lambda>target.
     bind (storagePoliciesFound (list_if_dict source) (list_if_dict target)) (\<lambda>found.
     bind (py_len (list_if_dict source)) (\<lambda>n.
     if n \<noteq> length found then
       Inl (Exception
             ''Storage profiles in Target PVDC should be same as those in Source Org VDC'')
     else Inr ())))))"

text \<open>The method without its decorator: \<^verbatim>\<open>except Exception:\<close> sets the flag and re-raises.\<close>

definition validateStorageProfiles_body :: "apiOutput \<Rightarrow> vcd \<Rightarrow> (pyerr + unit) \<times> vcd" where
  "validateStorageProfiles_body file self =
     (case validateStorageProfiles_try file of
        Inl e \<Rightarrow> (Inl e, self\<lparr> ENABLE_SOURCE_ORG_VDC := True \<rparr>)
      | Inr u \<Rightarrow> (Inr u, self))"

definition validateStorageProfiles ::
  "pyerr + nat \<Rightarrow> login_reply \<Rightarrow> apiOutput \<Rightarrow> vcd \<Rightarrow> (pyerr + unit) \<times> vcd" where
  "validateStorageProfiles probe login file =
     isSessionExpired probe login (validateStorageProfiles_body file)"

subsection \<open>validateHardwareVersion\<close>

text \<open>
  \<^verbatim>\<open>int(s)\<close> for a string of decimal digits; every other string raises \<^verbatim>\<open>ValueError\<close>
  here (Python also accepts blanks around the digits, a sign, and underscores between
  digits, none of which a hardware version name carries).
\<close>

definition is_digit :: "char \<Rightarrow> bool" where
  "is_digit c = (c \<in> set ''0123456789'')"

definition digit_value :: "char \<Rightarrow> int" where
  "digit_value c = int (length (takeWhile (\<lambda>d. d \<noteq> c) ''0123456789''))"

definition py_int :: "string \<Rightarrow> pyerr + int" where
  "py_int s =
     (if s \<noteq> [] \<and> list_all is_digit s
      then Inr (foldl (\<lambda>acc c. 10 * acc + digit_value c) 0 s)
      else Inl (ValueError (''invalid literal for int() with base 10: '' @ s)))"

text \<open>\<^verbatim>\<open>str(n)\<close> for an integer.\<close>

function str_nat :: "nat \<Rightarrow> string" where
  "str_nat n = (if n < 10 then [''0123456789'' ! n]
                else str_nat (n div 10) @ [''0123456789'' ! (n mod 10)])"
  by pat_completeness auto
termination
  by (relation "measure id") auto

definition py_str :: "int \<Rightarrow> string" where
  "py_str i = (if i < 0 then CHR ''-'' # str_nat (nat (- i)) else str_nat (nat i))"

text \<open>
  One round of either loop of \<^verbatim>\<open>validateHardwareVersion\<close>, on the local variables
  (highest version, name of the highest version):
  \<^verbatim>\<open>[name, currentVersion] = each['@name'].split('-')\<close>, then the comparison and the
  \<^verbatim>\<open>'-'.join\<close>.
\<close>

definition version_round :: "int \<times> string \<Rightarrow> json \<Rightarrow> pyerr + int \<times> string" where
  "version_round acc eachVersionDetail =
     bind (getitem eachVersionDetail ''@name'') (\<lambda>n.
       case n of
         JStr s \<Rightarrow>
           (case py_split (CHR ''-'') s of
              [name, currentVersion] \<Rightarrow>
                bind (py_int currentVersion) (\<lambda>v.
                  let highest = (if v > fst acc then v else fst acc)
                  in Inr (highest, name @ ''-'' @ py_str highest))
            | [] \<Rightarrow> Inl (ValueError ''not enough values to unpack (expected 2, got 0)'')
            | [_] \<Rightarrow> Inl (ValueError ''not enough values to unpack (expected 2, got 1)'')
            | _ \<Rightarrow> Inl (ValueError ''too many values to unpack (expected 2)''))
       | _ \<Rightarrow> Inl (AttributeError ''object has no attribute split''))"

definition highest_version :: "json \<Rightarrow> pyerr + int \<times> string" where
  "highest_version versions =
     bind (py_iter versions) (\<lambda>details. foldM version_round (0, []) details)"

text \<open>
  The text handed to \<^verbatim>\<open>raise\<close> when the source version is the higher one.
\<close>

definition hardware_version_message :: "string \<Rightarrow> string \<Rightarrow> string" where
  "hardware_version_message highestSourceVersionName highestTargetVersionName =
     ''Hardware version on both Source Provider VDC and Target Provider VDC are not compatible, either both should be same or target PVDC hardware version''
     @ '' should be greater than source PVDC hardware version. Source Provider VDC: ''
     @ highestSourceVersionName @ '' and Target Provider VDC is: '' @ highestTargetVersionName"

text \<open>
  \<^verbatim>\<open>raise (text)\<close> with a string: Python refuses to raise an object that is not an
  exception, and raises \<^verbatim>\<open>TypeError\<close> in its place.
\<close>

definition raise_str :: "string \<Rightarrow> pyerr" where
  "raise_str text = TypeError ''exceptions must derive from BaseException''"

text \<open>
  \<^verbatim>\<open>validateHardwareVersion\<close> (not decorated; its \<^verbatim>\<open>except Exception: raise\<close> changes
  nothing). \<^verbatim>\<open>data\<close> is bound only if the file exists.
\<close>

definition validateHardwareVersion :: "apiOutput \<Rightarrow> pyerr + unit" where
  "validateHardwareVersion file =
     (case file of
        None \<Rightarrow> Inl (UnboundLocalError ''data'')
      | Some data \<Rightarrow>
          bind (getpath (JDict data)
                  [''sourceProviderVDC'', ''Capabilities'', ''SupportedHardwareVersions'',
                   ''SupportedHardwareVersion'']) (\<lambda>sourceVersions.
          bind (highest_version sourceVersions) (\<lambda>source.
          bind (getpath (JDict data)
                  [''targetProviderVDC'', ''Capabilities'', ''SupportedHardwareVersions'',
                   ''SupportedHardwareVersion'']) (\<lambda>targetVersions.
          bind (highest_version targetVersions) (\<lambda>target.
          if fst source > fst target then
            Inl (raise_str (hardware_version_message (snd source) (snd target)))
          else Inr ())))))"

text \<open>
  A document that holds the hardware versions of the two Provider VDCs, each given as
  \<^verbatim>\<open>xmltodict\<close> decoded its \<^verbatim>\<open>SupportedHardwareVersion\<close> elements.
\<close>

definition pvdc :: "json \<Rightarrow> json" where
  "pvdc versions =
     JDict [(''Capabilities'',
             JDict [(''SupportedHardwareVersions'',
                     JDict [(''SupportedHardwareVersion'', versions)])])]"

definition hardware_document :: "json \<Rightarrow> json \<Rightarrow> apiOutput" where
  "hardware_document sourceVersions targetVersions =
     Some [(''sourceProviderVDC'', pvdc sourceVersions),
           (''targetProviderVDC'', pvdc targetVersions)]"

definition hw :: "string \<Rightarrow> json" where
  "hw name = JDict [(''@name'', JStr name), (''@type'', JStr ''application/vnd.vmware.vcloud.virtualHardwareVersion+xml'')]"

section \<open>Concrete inputs\<close>

text \<open>A wrapped operation that makes no call of its own and returns.\<close>

definition returns_at_once :: "vcd \<Rightarrow> (pyerr + unit) \<times> vcd" where
  "returns_at_once self = (Inr (), self)"

text \<open>Task records of the task that updates an affinity rule, and of an unrelated task.\<close>

definition task_running :: task where
  "task_running = \<lparr> t_operation = ''Updating Affinity Rule web (af1)'',
                    t_operationName = ''affinityRuleUpdate'', t_status = ''running'',
                    t_Details = None \<rparr>"

definition task_success :: task where
  "task_success = \<lparr> t_operation = ''Updated Affinity Rule web (af1)'',
                    t_operationName = ''affinityRuleUpdate'', t_status = ''success'',
                    t_Details = None \<rparr>"

definition task_unrelated :: task where
  "task_unrelated = \<lparr> t_operation = ''Deleted Virtual Machine db (vm7)'',
                      t_operationName = ''vappDeleteVm'', t_status = ''success'',
                      t_Details = None \<rparr>"

text \<open>Three polls see the task running, every later one sees it succeeded.\<close>

definition three_running_then_success :: "nat \<Rightarrow> poll_response" where
  "three_running_then_success n =
     (if n < 3 then PollResponse 200 task_running else PollResponse 200 task_success)"

text \<open>Every poll sees the task running.\<close>

definition always_running :: "nat \<Rightarrow> poll_response" where
  "always_running n = PollResponse 200 task_running"

text \<open>Every poll fetches the record of an unrelated task that has succeeded.\<close>

definition always_unrelated :: "nat \<Rightarrow> poll_response" where
  "always_unrelated n = PollResponse 200 task_unrelated"

text \<open>The document after discovery, for a source Org VDC that was enabled, and for one
  that was disabled.\<close>

definition enabled_document :: apiOutput where
  "enabled_document =
     Some [(''sourceOrgVDC'', JDict [(''@name'', JStr ''vdc1''), (''IsEnabled'', JStr ''true'')])]"

definition disabled_document :: apiOutput where
  "disabled_document =
     Some [(''sourceOrgVDC'', JDict [(''@name'', JStr ''vdc1''), (''IsEnabled'', JStr ''false'')])]"

text \<open>
  A run in which the source Org VDC has two edge gateways: every step before
  \<^verbatim>\<open>validateSingleEdgeGatewayExistForOrgVDC\<close> succeeds, with a valid session, and that
  step raises.
\<close>

definition two_gateways :: "step \<Rightarrow> step_env" where
  "two_gateways s =
     \<lparr> s_probe = Inr 200, s_login = LoginResponse 200 (Some ''tok''),
       s_body = (if s = S_validateSingleEdgeGatewayExistForOrgVDC
                 then Inl (Exception ''More than One Edge gateway exist for source Org VDC'')
                 else Inr ''urn:vcloud:vdc:1'') \<rparr>"

text \<open>A rollback in which both compensations succeed.\<close>

definition rollback_succeeds :: rollback_env where
  "rollback_succeeds =
     \<lparr> r_file = enabled_document, r_enable_reply = Reply 204 [], r_probe = Inr 200,
       r_login = LoginResponse 200 (Some ''tok''), r_affinity_body = Inr () \<rparr>"

text \<open>A rollback in which the request that enables the source Org VDC is refused.\<close>

definition enable_refused :: rollback_env where
  "enable_refused =
     \<lparr> r_file = enabled_document, r_enable_reply = Reply 500 ''busy'', r_probe = Inr 200,
       r_login = LoginResponse 200 (Some ''tok''), r_affinity_body = Inr () \<rparr>"

text \<open>A rollback for a source Org VDC that was disabled before the run.\<close>

definition rollback_disabled :: rollback_env where
  "rollback_disabled =
     \<lparr> r_file = disabled_document, r_enable_reply = Reply 204 [], r_probe = Inr 200,
       r_login = LoginResponse 200 (Some ''tok''), r_affinity_body = Inr () \<rparr>"

text \<open>The object when a step has set both flags.\<close>

definition both_flags_set :: vcd where
  "both_flags_set =
     (new_vcd ''vcd.example'')\<lparr> ENABLE_SOURCE_ORG_VDC := True,
                                 ENABLE_AFFINITY_RULES_IN_SOURCE_VAPP := True \<rparr>"

text \<open>A run in which the login, the first step, is refused.\<close>

definition login_refused :: "step \<Rightarrow> step_env" where
  "login_refused s =
     \<lparr> s_probe = Inr 200, s_login = LoginResponse 401 None, s_body = Inr ''urn:vcloud:vdc:1'' \<rparr>"

section \<open>Properties of the session guard\<close>


lemma vcdLogin_calls: "calls (snd (vcdLogin reply self)) = calls self @ [VcdLogin]"
  by (simp add: vcdLogin_def record_call_def Let_def split: login_reply.splits option.splits)

lemma vcdLogin_result_record_call:
  "fst (vcdLogin reply (record_call ev self)) = fst (vcdLogin reply self)"
  by (simp add: vcdLogin_def record_call_def Let_def split: login_reply.splits option.splits)

lemma vcdLogin_flags:
  "ENABLE_SOURCE_ORG_VDC (snd (vcdLogin reply self)) = ENABLE_SOURCE_ORG_VDC self"
  "ENABLE_AFFINITY_RULES_IN_SOURCE_VAPP (snd (vcdLogin reply self)) =
     ENABLE_AFFINITY_RULES_IN_SOURCE_VAPP self"
  by (simp_all add: vcdLogin_def record_call_def Let_def split: login_reply.splits option.splits)

lemma isSessionExpired_probe_raises:
  "isSessionExpired (Inl e) reply func self = (Inl e, record_call SessionProbe self)"
  by (simp add: isSessionExpired_def Let_def)

lemma isSessionExpired_ok:
  "isSessionExpired (Inr codes_ok) reply func self =
     func (record_call WrappedCall (record_call SessionProbe self))"
  by (simp add: isSessionExpired_def Let_def)

lemma isSessionExpired_login_fails:
  "status_code \<noteq> codes_ok \<Longrightarrow> fst (vcdLogin reply self) = Inl e \<Longrightarrow>
   isSessionExpired (Inr status_code) reply func self =
     (Inl e, snd (vcdLogin reply (record_call SessionProbe self)))"
proof -
  assume ne: "status_code \<noteq> codes_ok" and f: "fst (vcdLogin reply self) = Inl e"
  from f have "fst (vcdLogin reply (record_call SessionProbe self)) = Inl e"
    by (simp add: vcdLogin_result_record_call)
  then obtain s' where "vcdLogin reply (record_call SessionProbe self) = (Inl e, s')"
    by (cases "vcdLogin reply (record_call SessionProbe self)") simp
  with ne show ?thesis by (simp add: isSessionExpired_def Let_def)
qed

lemma isSessionExpired_login_succeeds:
  "status_code \<noteq> codes_ok \<Longrightarrow> fst (vcdLogin reply self) = Inr r \<Longrightarrow>
   isSessionExpired (Inr status_code) reply func self =
     func (record_call WrappedCall (snd (vcdLogin reply (record_call SessionProbe self))))"
proof -
  assume ne: "status_code \<noteq> codes_ok" and f: "fst (vcdLogin reply self) = Inr r"
  from f have "fst (vcdLogin reply (record_call SessionProbe self)) = Inr r"
    by (simp add: vcdLogin_result_record_call)
  then obtain s' where "vcdLogin reply (record_call SessionProbe self) = (Inr r, s')"
    by (cases "vcdLogin reply (record_call SessionProbe self)") simp
  with ne show ?thesis by (simp add: isSessionExpired_def Let_def)
qed




text \<open>
  It fails as well where the probe request itself raises, here for a lost connection:
  the guard neither logs in nor invokes the wrapped operation.
\<close>

lemma session_guard_probe_raises_example:
  "isSessionExpired (Inl ConnectionError) (LoginResponse 200 (Some ''tok'')) returns_at_once
     (new_vcd ''vcd.example'') =
     (Inl ConnectionError, (new_vcd ''vcd.example'')\<lparr> calls := [SessionProbe] \<rparr>)
   \<and> count_list [SessionProbe] WrappedCall = 0"
  by (simp add: isSessionExpired_def record_call_def new_vcd_def)

section \<open>Properties of the task poller\<close>

text \<open>One round of the loop, by what the fetched response means.\<close>

lemma poll_loop_step:
  "poll_loop T I name ro resp n t out =
     (if t < T then
        (if is_success name (resp n) then
           Some (Inr (if ro then Some (extract_output
                                         (t_operation (case resp n of PollResponse c d \<Rightarrow> d)))
                      else None))
         else if is_error name (resp n) then
           Some (Inl (case t_Details (case resp n of PollResponse c d \<Rightarrow> d) of
                        None \<Rightarrow> KeyError ''Details'' | Some details \<Rightarrow> Exception details))
         else poll_loop T I name ro resp (Suc n) (t + I)
                (case resp n of PollResponse c d \<Rightarrow>
                   if c = codes_ok \<and> ro then extract_output (t_operation d) else out))
      else Some (Inl (Exception (''Task '' @ name
                                   @ '' could not complete in the allocated time.''))))"
  by (subst poll_loop.simps)
     (auto simp: is_success_def is_error_def matching_def response_status_def
           split: poll_response.splits option.splits)

lemma poll_loop_terminates:
  "0 < I \<Longrightarrow> \<exists>r. poll_loop T I name ro resp n t out = Some r"
proof (induction "nat (T - t)" arbitrary: n t out rule: less_induct)
  case less
  show ?case
  proof (cases "t < T")
    case False
    then show ?thesis by (simp add: poll_loop_step)
  next
    case True
    with less.prems have "nat (T - (t + I)) < nat (T - t)" by simp
    then have ih: "\<And>n' out'. \<exists>r. poll_loop T I name ro resp n' (t + I) out' = Some r"
      using less.hyps less.prems by blast
    show ?thesis
      using True ih by (simp add: poll_loop_step)
  qed
qed

lemma poll_loop_timeout:
  "0 < I \<Longrightarrow> (\<forall>k. t + int k * I < T \<longrightarrow> \<not> is_terminal name (resp (n + k))) \<Longrightarrow>
   poll_loop T I name ro resp n t out =
     Some (Inl (Exception (''Task '' @ name @ '' could not complete in the allocated time.'')))"
proof (induction "nat (T - t)" arbitrary: n t out rule: less_induct)
  case less
  show ?case
  proof (cases "t < T")
    case False
    then show ?thesis by (simp add: poll_loop_step)
  next
    case True
    with less.prems have dec: "nat (T - (t + I)) < nat (T - t)" by simp
    from less.prems(2) True have now: "\<not> is_terminal name (resp n)"
      by (metis add.right_neutral mult_zero_left of_nat_0)
    have later: "\<forall>k. (t + I) + int k * I < T \<longrightarrow> \<not> is_terminal name (resp (Suc n + k))"
    proof (intro allI impI)
      fix k assume "(t + I) + int k * I < T"
      then have "t + int (Suc k) * I < T" by (simp add: algebra_simps)
      with less.prems(2) have "\<not> is_terminal name (resp (n + Suc k))" by blast
      then show "\<not> is_terminal name (resp (Suc n + k))" by simp
    qed
    have "poll_loop T I name ro resp (Suc n) (t + I) out' =
            Some (Inl (Exception (''Task '' @ name
                                    @ '' could not complete in the allocated time.'')))"
      for out'
      using less.hyps [OF dec less.prems(1) later] .
    with True now show ?thesis
      by (simp add: poll_loop_step is_terminal_def)
  qed
qed

lemma poll_loop_success:
  "0 < I \<Longrightarrow> t + int k * I < T \<Longrightarrow> is_success name (resp (n + k)) \<Longrightarrow>
   (\<forall>j<k. \<not> is_terminal name (resp (n + j))) \<Longrightarrow>
   \<exists>v. poll_loop T I name ro resp n t out = Some (Inr v)"
proof (induction k arbitrary: n t out)
  case 0
  then show ?case by (simp add: poll_loop_step)
next
  case (Suc k)
  from Suc.prems(1,2) have "0 \<le> int (Suc k) * I" by simp
  with Suc.prems(2) have lt: "t < T" by linarith
  from Suc.prems(4) have now: "\<not> is_terminal name (resp n)" by force
  from Suc.prems(2) have a: "(t + I) + int k * I < T" by (simp add: algebra_simps)
  from Suc.prems(3) have b: "is_success name (resp (Suc n + k))" by simp
  have c: "\<forall>j<k. \<not> is_terminal name (resp (Suc n + j))"
  proof (intro allI impI)
    fix j assume "j < k"
    then have "Suc j < Suc k" by simp
    with Suc.prems(4) have "\<not> is_terminal name (resp (n + Suc j))" by blast
    then show "\<not> is_terminal name (resp (Suc n + j))" by simp
  qed
  have "\<exists>v. poll_loop T I name ro resp (Suc n) (t + I) out' = Some (Inr v)" for out'
    using Suc.IH [OF Suc.prems(1) a b c] .
  with lt now show ?case
    by (simp add: poll_loop_step is_terminal_def)
qed

lemma poll_loop_returns_only_success:
  assumes "poll_loop T I name ro resp n t out = Some y"
  shows "\<forall>v. y = Inr v \<longrightarrow>
      (\<exists>k. is_success name (resp (n + k)) \<and> (\<forall>j<k. \<not> is_terminal name (resp (n + j)))
           \<and> t + int k * I < T)"
proof (rule poll_loop.raw_induct [where P = "\<lambda>T I name ro resp n t out y. \<forall>v. y = Inr v \<longrightarrow>
      (\<exists>k. is_success name (resp (n + k)) \<and> (\<forall>j<k. \<not> is_terminal name (resp (n + j)))
           \<and> t + int k * I < T)", OF _ assms], goal_cases)
  case (1 pl T I name ro resp n t out y)
  show ?case
  proof (intro allI impI)
    fix v assume y: "y = Inr v"
    have lt: "t < T" using 1(2) y by (auto split: if_splits)
    show "\<exists>k. is_success name (resp (n + k)) \<and> (\<forall>j<k. \<not> is_terminal name (resp (n + j)))
           \<and> t + int k * I < T"
    proof (cases "is_terminal name (resp n)")
      case True
      with 1(2) y lt have "is_success name (resp n)"
        by (auto simp: is_terminal_def is_success_def is_error_def matching_def response_status_def
                 split: poll_response.splits if_splits option.splits)
      with lt show ?thesis by (intro exI [of _ 0]) simp
    next
      case False
      with 1(2) lt obtain out' where "pl T I name ro resp (Suc n) (t + I) out' = Some y"
        by (auto simp: is_terminal_def is_success_def is_error_def matching_def response_status_def
                 split: poll_response.splits if_splits option.splits)
      from 1(1) [OF this] y obtain k where
        k: "is_success name (resp (Suc n + k))" "\<forall>j<k. \<not> is_terminal name (resp (Suc n + j))"
           "(t + I) + int k * I < T" by blast
      have "\<forall>j<Suc k. \<not> is_terminal name (resp (n + j))"
      proof (intro allI impI)
        fix j assume j: "j < Suc k"
        show "\<not> is_terminal name (resp (n + j))"
        proof (cases j)
          case 0 with False show ?thesis by simp
        next
          case (Suc j') with j k(2) show ?thesis by simp
        qed
      qed
      moreover from k(1) have "is_success name (resp (n + Suc k))" by simp
      moreover from k(3) have "t + int (Suc k) * I < T" by (simp add: algebra_simps)
      ultimately show ?thesis by blast
    qed
  qed
qed

lemma poll_loop_not_matching:
  "timeout < T \<Longrightarrow> \<not> matching name (resp n) \<Longrightarrow>
   poll_loop T I name ro resp n timeout out =
     poll_loop T I name ro resp (Suc n) (timeout + I)
       (case resp n of PollResponse c d \<Rightarrow>
          if c = codes_ok \<and> ro then extract_output (t_operation d) else out)"
  by (simp add: poll_loop_step is_success_def is_error_def)

lemma three_running_then_success_result:
  "checkTaskStatus 60 10 three_running_then_success ''affinityRuleUpdate'' False
     = Some (Inr None)"
  by (simp add: checkTaskStatus_def poll_loop.simps three_running_then_success_def
        task_running_def task_success_def codes_ok_def)

lemma three_running_then_success_facts:
  "is_success ''affinityRuleUpdate'' (three_running_then_success 3)"
  "\<forall>j<3. \<not> is_terminal ''affinityRuleUpdate'' (three_running_then_success j)"
  by (simp_all add: is_terminal_def is_success_def is_error_def matching_def
        response_status_def three_running_then_success_def task_running_def task_success_def
        codes_ok_def)

lemma always_running_facts:
  "\<not> is_terminal ''affinityRuleUpdate'' (always_running k)"
  by (simp add: is_terminal_def is_success_def is_error_def matching_def
        response_status_def always_running_def task_running_def codes_ok_def)

lemma always_unrelated_facts:
  "\<not> matching ''affinityRuleUpdate'' (always_unrelated k)"
  by (simp add: matching_def always_unrelated_def task_unrelated_def codes_ok_def)

text \<open>
  C4. A call of the poller returns normally only if one of the fetched responses, within
  the deadline, is a record whose operation name contains the expected task name and
  whose status is \<open>success\<close> (no terminal record having come before). A fetched record
  whose operation name does not contain the task name ends nothing, whatever its status:
  the poller waits one interval and polls again.
\<close>

theorem checkTaskStatus_returns_only_on_matching_success:
  "(checkTaskStatus T I responses taskName returnOutput = Some (Inr v) \<longrightarrow>
      (\<exists>k. is_success taskName (responses k)
           \<and> (\<forall>j<k. \<not> is_terminal taskName (responses j)) \<and> int k * I < T))
   \<and> (timeout < T \<and> \<not> matching taskName (responses n) \<longrightarrow>
        (\<exists>output'. poll_loop T I taskName returnOutput responses n timeout output =
           poll_loop T I taskName returnOutput responses (Suc n) (timeout + I) output'))"
proof (intro conjI impI)
  assume "checkTaskStatus T I responses taskName returnOutput = Some (Inr v)"
  then have "poll_loop T I taskName returnOutput responses 0 0 [] = Some (Inr v)"
    by (simp add: checkTaskStatus_def)
  from poll_loop_returns_only_success [OF this]
  show "\<exists>k. is_success taskName (responses k)
           \<and> (\<forall>j<k. \<not> is_terminal taskName (responses j)) \<and> int k * I < T"
    by simp
next
  assume "timeout < T \<and> \<not> matching taskName (responses n)"
  then show "\<exists>output'. poll_loop T I taskName returnOutput responses n timeout output =
           poll_loop T I taskName returnOutput responses (Suc n) (timeout + I) output'"
    using poll_loop_not_matching by blast
qed

theorem checkTaskStatus_returns_only_on_matching_success_witness:
  "checkTaskStatus 60 10 three_running_then_success ''affinityRuleUpdate'' False
     = Some (Inr None)
   \<and> (\<exists>k. is_success ''affinityRuleUpdate'' (three_running_then_success k)
        \<and> (\<forall>j<k. \<not> is_terminal ''affinityRuleUpdate'' (three_running_then_success j))
        \<and> int k * 10 < 60)
   \<and> (0::int) < 60 \<and> \<not> matching ''affinityRuleUpdate'' (always_unrelated 0)
   \<and> (\<exists>output'. poll_loop 60 10 ''affinityRuleUpdate'' False always_unrelated 0 0 [] =
         poll_loop 60 10 ''affinityRuleUpdate'' False always_unrelated (Suc 0) (0 + 10) output')"
proof -
  have h1: "checkTaskStatus 60 10 three_running_then_success ''affinityRuleUpdate'' False
              = Some (Inr None)"
    by (rule three_running_then_success_result)
  have h2: "(0::int) < 60 \<and> \<not> matching ''affinityRuleUpdate'' (always_unrelated 0)"
    by (simp add: always_unrelated_facts)
  note thm1 = checkTaskStatus_returns_only_on_matching_success
                [of 60 10 three_running_then_success "''affinityRuleUpdate''" False None,
                 THEN conjunct1, THEN mp, OF h1]
  note thm2 = checkTaskStatus_returns_only_on_matching_success
                [of 60 10 always_unrelated "''affinityRuleUpdate''" False None 0 0 "[]",
                 THEN conjunct2, THEN mp, OF h2]
  from h1 h2 thm1 thm2 show ?thesis by blast
qed

text \<open>
  C5. With a positive polling interval the poller comes to an end on every sequence of
  responses. If none of the responses fetched before the accumulated waiting time reaches
  the deadline is terminal, it raises the timeout error that names the task; if one of
  them is a matching success, and no terminal record came before it, the poller returns.
\<close>

theorem checkTaskStatus_ends_by_the_deadline:
  assumes "0 < I"
  shows "(\<exists>r. checkTaskStatus T I responses taskName returnOutput = Some r)
     \<and> ((\<forall>k. int k * I < T \<longrightarrow> \<not> is_terminal taskName (responses k)) \<longrightarrow>
          checkTaskStatus T I responses taskName returnOutput =
            Some (Inl (Exception (''Task '' @ taskName
                                    @ '' could not complete in the allocated time.''))))
     \<and> (int k * I < T \<and> is_success taskName (responses k)
          \<and> (\<forall>j<k. \<not> is_terminal taskName (responses j)) \<longrightarrow>
          (\<exists>v. checkTaskStatus T I responses taskName returnOutput = Some (Inr v)))"
proof (intro conjI impI)
  show "\<exists>r. checkTaskStatus T I responses taskName returnOutput = Some r"
    using poll_loop_terminates [OF assms] by (simp add: checkTaskStatus_def)
next
  assume "\<forall>k. int k * I < T \<longrightarrow> \<not> is_terminal taskName (responses k)"
  then have "\<forall>k. 0 + int k * I < T \<longrightarrow> \<not> is_terminal taskName (responses (0 + k))" by simp
  from poll_loop_timeout [OF assms this]
  show "checkTaskStatus T I responses taskName returnOutput =
            Some (Inl (Exception (''Task '' @ taskName
                                    @ '' could not complete in the allocated time.'')))"
    by (simp add: checkTaskStatus_def)
next
  assume a: "int k * I < T \<and> is_success taskName (responses k)
          \<and> (\<forall>j<k. \<not> is_terminal taskName (responses j))"
  then have "0 + int k * I < T" "is_success taskName (responses (0 + k))"
    "\<forall>j<k. \<not> is_terminal taskName (responses (0 + j))" by simp_all
  from poll_loop_success [OF assms this]
  show "\<exists>v. checkTaskStatus T I responses taskName returnOutput = Some (Inr v)"
    by (simp add: checkTaskStatus_def)
qed

theorem checkTaskStatus_ends_by_the_deadline_witness:
  "(0::int) < 10
   \<and> checkTaskStatus 60 10 always_running ''affinityRuleUpdate'' False =
       Some (Inl (Exception
               ''Task affinityRuleUpdate could not complete in the allocated time.''))
   \<and> int 3 * 10 < 60 \<and> is_success ''affinityRuleUpdate'' (three_running_then_success 3)
   \<and> (\<exists>v. checkTaskStatus 60 10 three_running_then_success ''affinityRuleUpdate'' False
            = Some (Inr v))"
proof -
  have pos: "(0::int) < 10" by simp
  have h1: "\<forall>k. int k * 10 < 60 \<longrightarrow> \<not> is_terminal ''affinityRuleUpdate'' (always_running k)"
    by (simp add: always_running_facts)
  have h2: "int 3 * 10 < 60 \<and> is_success ''affinityRuleUpdate'' (three_running_then_success 3)
          \<and> (\<forall>j<3. \<not> is_terminal ''affinityRuleUpdate'' (three_running_then_success j))"
    using three_running_then_success_facts by simp
  note thm1 = checkTaskStatus_ends_by_the_deadline
                [OF pos, of 60 always_running "''affinityRuleUpdate''" False,
                 THEN conjunct2, THEN conjunct1, THEN mp, OF h1]
  note thm2 = checkTaskStatus_ends_by_the_deadline
                [OF pos, of 60 three_running_then_success "''affinityRuleUpdate''" False 3,
                 THEN conjunct2, THEN conjunct2, THEN mp, OF h2]
  from pos h2 thm1 thm2 show ?thesis by simp
qed

section \<open>Properties of the rollback\<close>

subsection \<open>Which calls each operation records\<close>

lemma filter_calls_record_call:
  "filter P (calls (record_call ev self)) = filter P (calls self) @ (if P ev then [ev] else [])"
  by (simp add: record_call_def)

lemma filter_calls_vcdLogin:
  "\<not> P VcdLogin \<Longrightarrow> filter P (calls (snd (vcdLogin reply self))) = filter P (calls self)"
  by (simp add: vcdLogin_calls)

text \<open>The guard records no call but the probe, the login and the delegation.\<close>

lemma filter_calls_isSessionExpired:
  assumes "\<not> P SessionProbe" "\<not> P VcdLogin" "\<not> P WrappedCall"
    and "\<And>s. filter P (calls (snd (func s))) = filter P (calls s)"
  shows "filter P (calls (snd (isSessionExpired probe reply func self))) =
           filter P (calls self)"
proof (cases probe)
  case (Inl e)
  with assms show ?thesis
    by (simp add: isSessionExpired_probe_raises filter_calls_record_call)
next
  case probe: (Inr status_code)
  show ?thesis
  proof (cases "status_code = codes_ok")
    case True
    with probe assms show ?thesis
      by (simp add: isSessionExpired_ok filter_calls_record_call)
  next
    case False
    show ?thesis
    proof (cases "fst (vcdLogin reply self)")
      case (Inl e)
      with False probe assms show ?thesis
        by (simp add: isSessionExpired_login_fails filter_calls_vcdLogin
              filter_calls_record_call)
    next
      case (Inr r)
      with False probe assms show ?thesis
        by (simp add: isSessionExpired_login_succeeds filter_calls_vcdLogin
              filter_calls_record_call)
    qed
  qed
qed

text \<open>The guard changes a flag only if the operation it wraps does.\<close>

lemma isSessionExpired_keeps:
  assumes "\<And>s. Q s \<Longrightarrow> Q (snd (func s))"
    and "\<And>s ev. Q s \<Longrightarrow> Q (record_call ev s)"
    and "\<And>s. Q s \<Longrightarrow> Q (snd (vcdLogin reply s))"
    and "Q self"
  shows "Q (snd (isSessionExpired probe reply func self))"
proof (cases probe)
  case (Inl e)
  with assms show ?thesis by (simp add: isSessionExpired_probe_raises)
next
  case probe: (Inr status_code)
  show ?thesis
  proof (cases "status_code = codes_ok")
    case True
    with probe assms show ?thesis by (simp add: isSessionExpired_ok)
  next
    case False
    show ?thesis
    proof (cases "fst (vcdLogin reply self)")
      case (Inl e)
      with False probe assms show ?thesis by (simp add: isSessionExpired_login_fails)
    next
      case (Inr r)
      with False probe assms show ?thesis by (simp add: isSessionExpired_login_succeeds)
    qed
  qed
qed

lemma record_call_flags:
  "ENABLE_SOURCE_ORG_VDC (record_call ev self) = ENABLE_SOURCE_ORG_VDC self"
  "ENABLE_AFFINITY_RULES_IN_SOURCE_VAPP (record_call ev self) =
     ENABLE_AFFINITY_RULES_IN_SOURCE_VAPP self"
  by (simp_all add: record_call_def)

lemma enableSourceOrgVdc_flags:
  "ENABLE_SOURCE_ORG_VDC (snd (enableSourceOrgVdc file post_reply i self)) =
     ENABLE_SOURCE_ORG_VDC self"
  "ENABLE_AFFINITY_RULES_IN_SOURCE_VAPP (snd (enableSourceOrgVdc file post_reply i self)) =
     ENABLE_AFFINITY_RULES_IN_SOURCE_VAPP self"
  by (simp_all add: enableSourceOrgVdc_def record_call_def Let_def
        split: sum.splits reply.splits)

lemma enableSourceOrgVdc_calls:
  "calls (snd (enableSourceOrgVdc file post_reply i self)) =
     calls self @ [EnableSourceOrgVdcCall]
       @ (case file of
            None \<Rightarrow> []
          | Some data \<Rightarrow>
              if sourceOrgVDC_attribute data ''IsEnabled'' = Inr (JStr ''true'')
              then [EnableOrgVdcPost (id_suffix i)] else [])"
  by (simp add: enableSourceOrgVdc_def record_call_def json_load_def Let_def
        split: sum.splits reply.splits option.splits)

lemma enableSourceOrgVdc_compensations:
  "compensations (snd (enableSourceOrgVdc file post_reply i self)) =
     compensations self @ [EnableSourceOrgVdcCall]"
  by (simp add: compensations_def enableSourceOrgVdc_calls split: option.splits)

lemma enableSourceOrgVdc_result_state:
  "fst (enableSourceOrgVdc file post_reply i self) =
     fst (enableSourceOrgVdc file post_reply i self')"
  by (simp add: enableSourceOrgVdc_def Let_def split: sum.splits reply.splits)

lemma affinity_body_calls:
  "calls (snd (enableOrDisableSourceAffinityRules_body body self)) = calls self"
  by (simp add: enableOrDisableSourceAffinityRules_body_def split: sum.splits)

lemma affinity_calls:
  assumes "\<not> P SessionProbe" "\<not> P VcdLogin" "\<not> P WrappedCall"
  shows "filter P (calls (snd (enableOrDisableSourceAffinityRules p l body self))) =
           filter P (calls self)"
  unfolding enableOrDisableSourceAffinityRules_def
  by (rule filter_calls_isSessionExpired [OF assms]) (simp add: affinity_body_calls)

lemma ipAddress_record_call: "ipAddress (record_call ev self) = ipAddress self"
  by (simp add: record_call_def)

lemma vcdLogin_result_ipAddress:
  "ipAddress self = ipAddress self' \<Longrightarrow> fst (vcdLogin reply self) = fst (vcdLogin reply self')"
  by (simp add: vcdLogin_def record_call_def Let_def split: login_reply.splits option.splits)

lemma isSessionExpired_result_of_body:
  assumes "\<And>s s'. fst (func s) = fst (func s')"
    and "ipAddress self = ipAddress self'"
  shows "fst (isSessionExpired p l func self) = fst (isSessionExpired p l func self')"
proof (cases p)
  case (Inl e)
  then show ?thesis by (simp add: isSessionExpired_probe_raises)
next
  case probe: (Inr status_code)
  show ?thesis
  proof (cases "status_code = codes_ok")
    case True
    with probe assms(1) show ?thesis by (simp add: isSessionExpired_ok)
  next
    case False
    have eq: "fst (vcdLogin l self) = fst (vcdLogin l self')"
      using assms(2) by (rule vcdLogin_result_ipAddress)
    show ?thesis
    proof (cases "fst (vcdLogin l self)")
      case (Inl e)
      with eq have "fst (vcdLogin l self') = Inl e" by simp
      from isSessionExpired_login_fails [OF False Inl, where func = func]
        isSessionExpired_login_fails [OF False this, where func = func] probe
      show ?thesis by simp
    next
      case (Inr r)
      with eq have "fst (vcdLogin l self') = Inr r" by simp
      from isSessionExpired_login_succeeds [OF False Inr, where func = func]
        isSessionExpired_login_succeeds [OF False this, where func = func] assms(1) probe
      show ?thesis by simp
    qed
  qed
qed

lemma affinity_result_state:
  "ipAddress self = ipAddress self' \<Longrightarrow>
   fst (enableOrDisableSourceAffinityRules p l body self) =
     fst (enableOrDisableSourceAffinityRules p l body self')"
  unfolding enableOrDisableSourceAffinityRules_def
  by (rule isSessionExpired_result_of_body)
     (simp_all add: enableOrDisableSourceAffinityRules_body_def split: sum.splits)

lemma enableSourceOrgVdc_ipAddress:
  "ipAddress (snd (enableSourceOrgVdc file post_reply i self)) = ipAddress self"
  by (simp add: enableSourceOrgVdc_def record_call_def Let_def split: sum.splits reply.splits)

subsection \<open>The handler, case by case\<close>

lemma rollback_no_flag:
  "\<not> ENABLE_SOURCE_ORG_VDC self \<Longrightarrow> \<not> ENABLE_AFFINITY_RULES_IN_SOURCE_VAPP self \<Longrightarrow>
   rollback env sid err self = (err, self)"
  by (simp add: rollback_def)

lemma rollback_unbound:
  "ENABLE_SOURCE_ORG_VDC self \<or> ENABLE_AFFINITY_RULES_IN_SOURCE_VAPP self \<Longrightarrow>
   rollback env None err self = (UnboundLocalError ''sourceOrgVDCId'', self)"
  by (auto simp: rollback_def)

lemma rollback_enable_raises:
  assumes "ENABLE_SOURCE_ORG_VDC self"
    and "fst (enableSourceOrgVdc (r_file env) (r_enable_reply env) i self) = Inl e"
  shows "rollback env (Some i) err self =
           (e, snd (enableSourceOrgVdc (r_file env) (r_enable_reply env) i self))"
proof -
  obtain s1 where "enableSourceOrgVdc (r_file env) (r_enable_reply env) i self = (Inl e, s1)"
    using assms(2)
    by (cases "enableSourceOrgVdc (r_file env) (r_enable_reply env) i self") simp
  with assms(1) show ?thesis by (simp add: rollback_def)
qed

lemma rollback_enable_returns:
  assumes "ENABLE_SOURCE_ORG_VDC self"
    and "fst (enableSourceOrgVdc (r_file env) (r_enable_reply env) i self) = Inr u"
  shows "rollback env (Some i) err self =
           rollback_second env i err
             (snd (enableSourceOrgVdc (r_file env) (r_enable_reply env) i self))"
proof -
  obtain s1 where "enableSourceOrgVdc (r_file env) (r_enable_reply env) i self = (Inr u, s1)"
    using assms(2)
    by (cases "enableSourceOrgVdc (r_file env) (r_enable_reply env) i self") simp
  with assms(1) show ?thesis
    by (simp add: rollback_def rollback_second_def split: prod.splits sum.splits)
qed

lemma rollback_enable_not_due:
  "\<not> ENABLE_SOURCE_ORG_VDC self \<Longrightarrow>
   rollback env (Some i) err self = rollback_second env i err self"
  by (simp add: rollback_def rollback_second_def split: prod.splits sum.splits)

lemma rollback_second_compensations:
  "compensations (snd (rollback_second env i err self1)) =
     compensations self1
       @ (if ENABLE_AFFINITY_RULES_IN_SOURCE_VAPP self1 then [EnableAffinityRulesCall] else [])"
proof (cases "ENABLE_AFFINITY_RULES_IN_SOURCE_VAPP self1")
  case False
  then show ?thesis by (simp add: rollback_second_def)
next
  case True
  have "filter is_compensation
          (calls (snd (enableOrDisableSourceAffinityRules (r_probe env) (r_login env)
                         (r_affinity_body env) (record_call EnableAffinityRulesCall self1)))) =
        filter is_compensation (calls (record_call EnableAffinityRulesCall self1))"
    by (rule affinity_calls) simp_all
  moreover from True
  have "snd (rollback_second env i err self1) =
          snd (enableOrDisableSourceAffinityRules (r_probe env) (r_login env)
                 (r_affinity_body env) (record_call EnableAffinityRulesCall self1))"
    by (simp add: rollback_second_def split: prod.splits sum.splits)
  ultimately show ?thesis
    using True by (simp add: compensations_def filter_calls_record_call)
qed

lemma rollback_second_result:
  "fst (rollback_second env i err self1) =
     (if ENABLE_AFFINITY_RULES_IN_SOURCE_VAPP self1 then
        (case fst (enableOrDisableSourceAffinityRules (r_probe env) (r_login env)
                     (r_affinity_body env) (record_call EnableAffinityRulesCall self1)) of
           Inl e \<Rightarrow> e | Inr _ \<Rightarrow> err)
      else err)"
  by (simp add: rollback_second_def split: prod.splits sum.splits)

lemma rollback_compensations:
  "compensations (snd (rollback env sid err self)) =
     compensations self
       @ (if ENABLE_SOURCE_ORG_VDC self \<and> sid \<noteq> None then [EnableSourceOrgVdcCall] else [])
       @ (if ENABLE_AFFINITY_RULES_IN_SOURCE_VAPP self \<and> sid \<noteq> None
             \<and> \<not> (ENABLE_SOURCE_ORG_VDC self \<and> isl (enable_outcome env sid self))
          then [EnableAffinityRulesCall] else [])"
proof (cases sid)
  case None
  show ?thesis
  proof (cases "ENABLE_SOURCE_ORG_VDC self \<or> ENABLE_AFFINITY_RULES_IN_SOURCE_VAPP self")
    case True
    with None show ?thesis by (simp add: rollback_unbound)
  next
    case False
    with None show ?thesis by (simp add: rollback_no_flag)
  qed
next
  case (Some i)
  show ?thesis
  proof (cases "ENABLE_SOURCE_ORG_VDC self")
    case False
    with Some show ?thesis
      by (simp add: rollback_enable_not_due rollback_second_compensations)
  next
    case True
    show ?thesis
    proof (cases "fst (enableSourceOrgVdc (r_file env) (r_enable_reply env) i self)")
      case (Inl e)
      with True Some show ?thesis
        by (simp add: rollback_enable_raises enable_outcome_def enableSourceOrgVdc_compensations)
    next
      case (Inr u)
      with True Some show ?thesis
        by (simp add: rollback_enable_returns rollback_second_compensations enable_outcome_def
              enableSourceOrgVdc_compensations enableSourceOrgVdc_flags)
    qed
  qed
qed

lemma affinity_result_after_enable:
  "fst (enableOrDisableSourceAffinityRules p l body
          (record_call ev (snd (enableSourceOrgVdc file post_reply i self)))) =
   fst (enableOrDisableSourceAffinityRules p l body self)"
  by (rule affinity_result_state) (simp add: ipAddress_record_call enableSourceOrgVdc_ipAddress)

lemma affinity_result_after_record:
  "fst (enableOrDisableSourceAffinityRules p l body (record_call ev self)) =
   fst (enableOrDisableSourceAffinityRules p l body self)"
  by (rule affinity_result_state) (simp add: ipAddress_record_call)

lemma rollback_result:
  "fst (rollback env sid err self) =
     (if ENABLE_SOURCE_ORG_VDC self \<and> isl (enable_outcome env sid self)
      then projl (enable_outcome env sid self)
      else if ENABLE_AFFINITY_RULES_IN_SOURCE_VAPP self \<and> isl (affinity_outcome env sid self)
      then projl (affinity_outcome env sid self)
      else err)"
proof (cases sid)
  case None
  show ?thesis
  proof (cases "ENABLE_SOURCE_ORG_VDC self \<or> ENABLE_AFFINITY_RULES_IN_SOURCE_VAPP self")
    case True
    with None show ?thesis
      by (auto simp: rollback_unbound enable_outcome_def affinity_outcome_def)
  next
    case False
    with None show ?thesis by (simp add: rollback_no_flag)
  qed
next
  case (Some i)
  show ?thesis
  proof (cases "ENABLE_SOURCE_ORG_VDC self")
    case False
    with Some show ?thesis
      by (simp add: rollback_enable_not_due rollback_second_result affinity_outcome_def
            affinity_result_after_record split: sum.splits)
  next
    case True
    show ?thesis
    proof (cases "fst (enableSourceOrgVdc (r_file env) (r_enable_reply env) i self)")
      case (Inl e)
      with True Some show ?thesis
        by (simp add: rollback_enable_raises enable_outcome_def)
    next
      case (Inr u)
      with True Some show ?thesis
        by (simp add: rollback_enable_returns rollback_second_result enable_outcome_def
              affinity_outcome_def enableSourceOrgVdc_flags affinity_result_after_enable
              split: sum.splits)
    qed
  qed
qed

subsection \<open>The steps\<close>

lemma step_body_calls: "calls (snd (step_body s body self)) = calls self"
  by (simp add: step_body_def Let_def split: sum.splits)

lemma run_step_state:
  "snd (run_step env s self) =
     (if s = S_vcdLogin then snd (vcdLogin (s_login env) self)
      else if decorated s then
        snd (isSessionExpired (s_probe env) (s_login env) (step_body s (s_body env)) self)
      else snd (step_body s (s_body env) self))"
  by (simp add: run_step_def split: prod.splits sum.splits)

lemma run_step_calls:
  assumes "\<not> P SessionProbe" "\<not> P VcdLogin" "\<not> P WrappedCall"
  shows "filter P (calls (snd (run_step env s self))) = filter P (calls self)"
proof -
  have "filter P (calls (snd (isSessionExpired (s_probe env) (s_login env)
                  (step_body s (s_body env)) self))) = filter P (calls self)"
    by (rule filter_calls_isSessionExpired [OF assms]) (simp add: step_body_calls)
  with assms(2) show ?thesis
    by (simp add: run_step_state filter_calls_vcdLogin step_body_calls)
qed

lemma run_steps_calls:
  assumes "\<not> P SessionProbe" "\<not> P VcdLogin" "\<not> P WrappedCall"
  shows "filter P (calls (snd (snd (run_steps envs ss sid self)))) = filter P (calls self)"
proof (induction ss arbitrary: sid self)
  case Nil
  show ?case by simp
next
  case (Cons s ss)
  obtain r self1 where step: "run_step (envs s) s self = (r, self1)"
    by (cases "run_step (envs s) s self")
  have "filter P (calls (snd (run_step (envs s) s self))) = filter P (calls self)"
    by (rule run_step_calls [OF assms])
  with step have c: "filter P (calls self1) = filter P (calls self)" by simp
  show ?case
  proof (cases r)
    case (Inl e)
    with step c show ?thesis by simp
  next
    case (Inr v)
    with step c Cons.IH show ?thesis by simp
  qed
qed

lemma run_steps_bound:
  "run_steps envs ss (Some i) self = (r, sid', self') \<Longrightarrow> sid' \<noteq> None"
proof (induction ss arbitrary: i self)
  case Nil
  then show ?case by auto
next
  case (Cons s ss)
  obtain r1 self1 where step: "run_step (envs s) s self = (r1, self1)"
    by (cases "run_step (envs s) s self")
  show ?case
  proof (cases r1)
    case (Inl e)
    with step Cons.prems show ?thesis by auto
  next
    case (Inr v)
    with step Cons.prems
    have "run_steps envs ss (if s = S_getOrgVDCDetails then Some v else Some i) self1
            = (r, sid', self')" by simp
    then show ?thesis using Cons.IH by (simp split: if_splits)
  qed
qed

subsection \<open>The flags\<close>

lemma flags_kept_refl: "flags_kept self self"
  by (simp add: flags_kept_def)

lemma flags_kept_trans: "flags_kept a b \<Longrightarrow> flags_kept b c \<Longrightarrow> flags_kept a c"
  by (simp add: flags_kept_def)

lemma flags_kept_record_call: "flags_kept a b \<Longrightarrow> flags_kept a (record_call ev b)"
  by (simp add: flags_kept_def record_call_flags)

lemma flags_kept_vcdLogin: "flags_kept a b \<Longrightarrow> flags_kept a (snd (vcdLogin reply b))"
  by (simp add: flags_kept_def vcdLogin_flags)

lemma flags_kept_isSessionExpired:
  assumes "\<And>s. flags_kept s (snd (func s))"
  shows "flags_kept self (snd (isSessionExpired p l func self))"
proof (rule isSessionExpired_keeps [where Q = "flags_kept self"])
  fix s assume "flags_kept self s"
  then show "flags_kept self (snd (func s))" using assms [of s] by (rule flags_kept_trans)
qed (simp_all add: flags_kept_record_call flags_kept_vcdLogin flags_kept_refl)

lemma flags_kept_step_body: "flags_kept self (snd (step_body s body self))"
  by (simp add: flags_kept_def step_body_def Let_def split: sum.splits)

lemma flags_kept_run_step: "flags_kept self (snd (run_step env s self))"
  by (simp add: run_step_state flags_kept_vcdLogin flags_kept_refl flags_kept_step_body
        flags_kept_isSessionExpired)

lemma flags_kept_run_steps: "flags_kept self (snd (snd (run_steps envs ss sid self)))"
proof (induction ss arbitrary: sid self)
  case Nil
  show ?case by (simp add: flags_kept_refl)
next
  case (Cons s ss)
  obtain r self1 where step: "run_step (envs s) s self = (r, self1)"
    by (cases "run_step (envs s) s self")
  have "flags_kept self (snd (run_step (envs s) s self))" by (rule flags_kept_run_step)
  with step have k: "flags_kept self self1" by simp
  show ?case
  proof (cases r)
    case (Inl e)
    with step k show ?thesis by simp
  next
    case (Inr v)
    have "flags_kept self1
            (snd (snd (run_steps envs ss (if s = S_getOrgVDCDetails then Some v else sid) self1)))"
      by (rule Cons.IH)
    with k have "flags_kept self
            (snd (snd (run_steps envs ss (if s = S_getOrgVDCDetails then Some v else sid) self1)))"
      by (rule flags_kept_trans)
    with step Inr show ?thesis by simp
  qed
qed

lemma flags_kept_enableSourceOrgVdc:
  "flags_kept self (snd (enableSourceOrgVdc file post_reply i self))"
  by (simp add: flags_kept_def enableSourceOrgVdc_flags)

lemma flags_kept_affinity_body:
  "flags_kept self (snd (enableOrDisableSourceAffinityRules_body body self))"
  by (simp add: flags_kept_def enableOrDisableSourceAffinityRules_body_def split: sum.splits)

lemma flags_kept_affinity:
  "flags_kept self (snd (enableOrDisableSourceAffinityRules p l body self))"
  unfolding enableOrDisableSourceAffinityRules_def
  by (rule flags_kept_isSessionExpired) (rule flags_kept_affinity_body)

lemma flags_kept_rollback_second:
  "flags_kept self1 (snd (rollback_second env i err self1))"
proof (cases "ENABLE_AFFINITY_RULES_IN_SOURCE_VAPP self1")
  case False
  then show ?thesis by (simp add: rollback_second_def flags_kept_refl)
next
  case True
  then have "snd (rollback_second env i err self1) =
          snd (enableOrDisableSourceAffinityRules (r_probe env) (r_login env)
                 (r_affinity_body env) (record_call EnableAffinityRulesCall self1))"
    by (simp add: rollback_second_def split: prod.splits sum.splits)
  moreover have "flags_kept self1 (record_call EnableAffinityRulesCall self1)"
    by (simp add: flags_kept_record_call flags_kept_refl)
  ultimately show ?thesis
    using flags_kept_affinity flags_kept_trans by metis
qed

lemma flags_kept_rollback: "flags_kept self (snd (rollback env sid err self))"
proof (cases sid)
  case None
  show ?thesis
  proof (cases "ENABLE_SOURCE_ORG_VDC self \<or> ENABLE_AFFINITY_RULES_IN_SOURCE_VAPP self")
    case True
    with None show ?thesis by (simp add: rollback_unbound flags_kept_refl)
  next
    case False
    with None show ?thesis by (simp add: rollback_no_flag flags_kept_refl)
  qed
next
  case (Some i)
  show ?thesis
  proof (cases "ENABLE_SOURCE_ORG_VDC self")
    case False
    with Some show ?thesis by (simp add: rollback_enable_not_due flags_kept_rollback_second)
  next
    case True
    show ?thesis
    proof (cases "fst (enableSourceOrgVdc (r_file env) (r_enable_reply env) i self)")
      case (Inl e)
      with True Some show ?thesis
        by (simp add: rollback_enable_raises flags_kept_enableSourceOrgVdc)
    next
      case (Inr u)
      with True Some show ?thesis
        using flags_kept_trans [OF flags_kept_enableSourceOrgVdc flags_kept_rollback_second]
        by (simp add: rollback_enable_returns)
    qed
  qed
qed

lemma preMigrationValidation_state:
  "snd (preMigrationValidation envs renv self) =
     (case run_steps envs pipeline None self of
        (Inr u, sid, self') \<Rightarrow> self'
      | (Inl err, sid, self') \<Rightarrow> snd (rollback renv sid err self'))"
  by (simp add: preMigrationValidation_def split: prod.splits sum.splits)

lemma preMigrationValidation_failure:
  "run_steps envs pipeline None self = (Inl err, sid, self') \<Longrightarrow>
   preMigrationValidation envs renv self =
     (Inl (fst (rollback renv sid err self')), snd (rollback renv sid err self'))"
  by (simp add: preMigrationValidation_def split: prod.splits)

lemma flags_kept_preMigrationValidation:
  "flags_kept self (snd (preMigrationValidation envs renv self))"
proof -
  obtain r sid self' where run: "run_steps envs pipeline None self = (r, sid, self')"
    by (cases "run_steps envs pipeline None self")
  have "flags_kept self (snd (snd (run_steps envs pipeline None self)))"
    by (rule flags_kept_run_steps)
  with run have k: "flags_kept self self'" by simp
  show ?thesis
  proof (cases r)
    case (Inr u)
    with run k show ?thesis by (simp add: preMigrationValidation_state)
  next
    case (Inl err)
    with run k flags_kept_rollback [of self' renv sid err] show ?thesis
      by (auto simp: preMigrationValidation_state intro: flags_kept_trans)
  qed
qed

subsection \<open>A run on a new object\<close>

lemma run_step_no_except_flags:
  assumes "except_sets s = (False, False)"
  shows "ENABLE_SOURCE_ORG_VDC (snd (run_step env s self)) = ENABLE_SOURCE_ORG_VDC self
       \<and> ENABLE_AFFINITY_RULES_IN_SOURCE_VAPP (snd (run_step env s self)) =
           ENABLE_AFFINITY_RULES_IN_SOURCE_VAPP self"
proof -
  let ?Q = "\<lambda>s'. ENABLE_SOURCE_ORG_VDC s' = ENABLE_SOURCE_ORG_VDC self
       \<and> ENABLE_AFFINITY_RULES_IN_SOURCE_VAPP s' = ENABLE_AFFINITY_RULES_IN_SOURCE_VAPP self"
  have body: "?Q (snd (step_body s b s'))" if "?Q s'" for s' b
    using that assms by (simp add: step_body_def Let_def split: sum.splits)
  have "?Q (snd (isSessionExpired (s_probe env) (s_login env)
                   (step_body s (s_body env)) self))"
    by (rule isSessionExpired_keeps [where Q = ?Q])
       (simp_all add: body record_call_flags vcdLogin_flags)
  moreover have "?Q (snd (step_body s (s_body env) self))" by (rule body) simp
  moreover have "?Q (snd (vcdLogin (s_login env) self))" by (simp add: vcdLogin_flags)
  ultimately show ?thesis by (simp add: run_step_state)
qed

text \<open>
  While \<open>sourceOrgVDCId\<close> is unbound no step has touched a flag: the three steps up to
  \<^verbatim>\<open>getOrgVDCDetails\<close> have no assignment to one.
\<close>

lemma pipeline_unbound_flags:
  assumes "run_steps envs pipeline None self = (r, None, self')"
  shows "ENABLE_SOURCE_ORG_VDC self' = ENABLE_SOURCE_ORG_VDC self
       \<and> ENABLE_AFFINITY_RULES_IN_SOURCE_VAPP self' = ENABLE_AFFINITY_RULES_IN_SOURCE_VAPP self"
proof -
  define rest where "rest = drop 3 pipeline"
  have p: "pipeline = S_vcdLogin # S_getOrgUrl # S_getOrgVDCDetails # rest"
    by (simp add: rest_def pipeline_def)
  obtain r1 s1 where 1: "run_step (envs S_vcdLogin) S_vcdLogin self = (r1, s1)"
    by (cases "run_step (envs S_vcdLogin) S_vcdLogin self")
  obtain r2 s2 where 2: "run_step (envs S_getOrgUrl) S_getOrgUrl s1 = (r2, s2)"
    by (cases "run_step (envs S_getOrgUrl) S_getOrgUrl s1")
  obtain r3 s3 where 3: "run_step (envs S_getOrgVDCDetails) S_getOrgVDCDetails s2 = (r3, s3)"
    by (cases "run_step (envs S_getOrgVDCDetails) S_getOrgVDCDetails s2")
  from run_step_no_except_flags [of S_vcdLogin "envs S_vcdLogin" self] 1
  have f1: "ENABLE_SOURCE_ORG_VDC s1 = ENABLE_SOURCE_ORG_VDC self
       \<and> ENABLE_AFFINITY_RULES_IN_SOURCE_VAPP s1 = ENABLE_AFFINITY_RULES_IN_SOURCE_VAPP self"
    by simp
  from run_step_no_except_flags [of S_getOrgUrl "envs S_getOrgUrl" s1] 2 f1
  have f2: "ENABLE_SOURCE_ORG_VDC s2 = ENABLE_SOURCE_ORG_VDC self
       \<and> ENABLE_AFFINITY_RULES_IN_SOURCE_VAPP s2 = ENABLE_AFFINITY_RULES_IN_SOURCE_VAPP self"
    by simp
  from run_step_no_except_flags [of S_getOrgVDCDetails "envs S_getOrgVDCDetails" s2] 3 f2
  have f3: "ENABLE_SOURCE_ORG_VDC s3 = ENABLE_SOURCE_ORG_VDC self
       \<and> ENABLE_AFFINITY_RULES_IN_SOURCE_VAPP s3 = ENABLE_AFFINITY_RULES_IN_SOURCE_VAPP self"
    by simp
  show ?thesis
  proof (cases r1)
    case (Inl e)
    with assms 1 f1 show ?thesis by (simp add: p)
  next
    case a: (Inr v1)
    show ?thesis
    proof (cases r2)
      case (Inl e)
      with assms 1 2 a f2 show ?thesis by (simp add: p)
    next
      case b: (Inr v2)
      show ?thesis
      proof (cases r3)
        case (Inl e)
        with assms 1 2 3 a b f3 show ?thesis by (simp add: p)
      next
        case (Inr v3)
        with assms 1 2 3 a b have "run_steps envs rest (Some v3) s3 = (r, None, self')"
          by (simp add: p)
        from run_steps_bound [OF this] show ?thesis by simp
      qed
    qed
  qed
qed

lemma two_gateways_run:
  "run_steps two_gateways pipeline None (new_vcd ''vcd.example'') =
     (Inl (Exception ''More than One Edge gateway exist for source Org VDC''),
      Some ''urn:vcloud:vdc:1'',
      \<lparr> ipAddress = ''vcd.example'', ENABLE_SOURCE_ORG_VDC = True,
        ENABLE_AFFINITY_RULES_IN_SOURCE_VAPP = True, VCD_SESSION_CREATED = True,
        bearerToken = ''Bearer tok'',
        calls = [VcdLogin,
                 SessionProbe, WrappedCall,
                 SessionProbe, WrappedCall,
                 SessionProbe, WrappedCall,
                 SessionProbe, WrappedCall,
                 SessionProbe, WrappedCall,
                 SessionProbe, WrappedCall,
                 SessionProbe, WrappedCall,
                 SessionProbe, WrappedCall,
                 SessionProbe, WrappedCall,
                 SessionProbe, WrappedCall,
                 SessionProbe, WrappedCall,
                 SessionProbe, WrappedCall,
                 SessionProbe, WrappedCall,
                 SessionProbe, WrappedCall] \<rparr>)"
  by (simp add: pipeline_def run_step_def two_gateways_def isSessionExpired_def vcdLogin_def
        record_call_def new_vcd_def codes_ok_def step_body_def Let_def)

lemma enable_refused_outcome:
  "enable_outcome enable_refused (Some ''urn:vcloud:vdc:1'') self =
     Inl (Exception ''Failed to Enable Source Org VDC: busy'')"
  by (simp add: enable_outcome_def enable_refused_def enableSourceOrgVdc_def
        enabled_document_def json_load_def sourceOrgVDC_attribute_def bind_def
        codes_no_content_def Let_def)

lemma rollback_succeeds_outcomes:
  "enable_outcome rollback_succeeds (Some ''urn:vcloud:vdc:1'') self = Inr ()"
  "affinity_outcome rollback_succeeds (Some ''urn:vcloud:vdc:1'') self = Inr ()"
  by (simp_all add: enable_outcome_def affinity_outcome_def rollback_succeeds_def
        enableSourceOrgVdc_def enabled_document_def json_load_def sourceOrgVDC_attribute_def
        bind_def codes_no_content_def codes_ok_def Let_def
        enableOrDisableSourceAffinityRules_def isSessionExpired_def
        enableOrDisableSourceAffinityRules_body_def)

lemma stale_flags_run:
  "run_steps login_refused pipeline None both_flags_set =
     (Inl (Exception
             ''Failed to login to VMware Cloud Director vcd.example with the given credentials''),
      None,
      both_flags_set\<lparr> calls := [VcdLogin] \<rparr>)"
  by (simp add: pipeline_def run_step_def login_refused_def vcdLogin_def record_call_def
        both_flags_set_def new_vcd_def codes_ok_def Let_def)

text \<open>
  A run that starts with a flag left set by an earlier run on the same object and fails
  at the login: \<open>sourceOrgVDCId\<close> is unbound, so the handler makes no compensating call
  and raises \<^verbatim>\<open>UnboundLocalError\<close>.
\<close>

lemma stale_flags_no_compensation:
  "preMigrationValidation login_refused rollback_succeeds both_flags_set =
     (Inl (UnboundLocalError ''sourceOrgVDCId''), both_flags_set\<lparr> calls := [VcdLogin] \<rparr>)
   \<and> compensations (both_flags_set\<lparr> calls := [VcdLogin] \<rparr>) = []"
proof -
  have flag: "ENABLE_SOURCE_ORG_VDC (both_flags_set\<lparr> calls := [VcdLogin] \<rparr>)
              \<or> ENABLE_AFFINITY_RULES_IN_SOURCE_VAPP (both_flags_set\<lparr> calls := [VcdLogin] \<rparr>)"
    by (simp add: both_flags_set_def)
  have "preMigrationValidation login_refused rollback_succeeds both_flags_set =
     (Inl (UnboundLocalError ''sourceOrgVDCId''), both_flags_set\<lparr> calls := [VcdLogin] \<rparr>)"
    by (simp add: preMigrationValidation_failure [OF stale_flags_run]
          rollback_unbound [OF flag])
  moreover have "compensations (both_flags_set\<lparr> calls := [VcdLogin] \<rparr>) = []"
    by (simp add: compensations_def)
  ultimately show ?thesis by simp
qed




text \<open>
  C2, as the code has it. In a failed run: when every compensation that is due returns,
  the error raised to the caller is the one that ended the run; when the call that
  re-enables the source Org VDC is due and raises \<open>e\<close> (the \<^verbatim>\<open>UnboundLocalError\<close> of an
  unbound \<open>sourceOrgVDCId\<close> included, in which case the call is not even made), the
  handler is left with \<open>e\<close> and the affinity rules are not touched; when the call that
  re-enables the affinity rules is reached and raises \<open>e\<close>, the caller gets \<open>e\<close>. In a
  run that starts with both flags unset, \<open>sourceOrgVDCId\<close> is bound whenever a flag is set
  at the failure.
\<close>

theorem rollback_reraises_or_propagates:
  assumes "run_steps envs pipeline None self = (Inl err, sid, self')"
  shows "((ENABLE_SOURCE_ORG_VDC self' \<longrightarrow> \<not> isl (enable_outcome renv sid self'))
          \<and> (ENABLE_AFFINITY_RULES_IN_SOURCE_VAPP self'
               \<longrightarrow> \<not> isl (affinity_outcome renv sid self'))
          \<longrightarrow> fst (preMigrationValidation envs renv self) = Inl err)
       \<and> (ENABLE_SOURCE_ORG_VDC self' \<and> enable_outcome renv sid self' = Inl e
          \<longrightarrow> fst (preMigrationValidation envs renv self) = Inl e
              \<and> compensations (snd (preMigrationValidation envs renv self)) =
                  compensations self @ (if sid \<noteq> None then [EnableSourceOrgVdcCall] else []))
       \<and> ((ENABLE_SOURCE_ORG_VDC self' \<longrightarrow> \<not> isl (enable_outcome renv sid self'))
          \<and> ENABLE_AFFINITY_RULES_IN_SOURCE_VAPP self'
          \<and> affinity_outcome renv sid self' = Inl e
          \<longrightarrow> fst (preMigrationValidation envs renv self) = Inl e)
       \<and> (\<not> ENABLE_SOURCE_ORG_VDC self \<and> \<not> ENABLE_AFFINITY_RULES_IN_SOURCE_VAPP self
              \<and> (ENABLE_SOURCE_ORG_VDC self' \<or> ENABLE_AFFINITY_RULES_IN_SOURCE_VAPP self')
            \<longrightarrow> sid \<noteq> None)"
proof -
  have res: "fst (preMigrationValidation envs renv self) = Inl (fst (rollback renv sid err self'))"
    using assms by (simp add: preMigrationValidation_failure)
  have "filter is_compensation (calls (snd (snd (run_steps envs pipeline None self)))) =
          filter is_compensation (calls self)"
    by (rule run_steps_calls) simp_all
  with assms have same: "compensations self' = compensations self"
    by (simp add: compensations_def)
  have comp: "compensations (snd (preMigrationValidation envs renv self)) =
                compensations (snd (rollback renv sid err self'))"
    using assms by (simp add: preMigrationValidation_failure)
  show ?thesis
  proof (intro conjI impI)
    assume "(ENABLE_SOURCE_ORG_VDC self' \<longrightarrow> \<not> isl (enable_outcome renv sid self'))
          \<and> (ENABLE_AFFINITY_RULES_IN_SOURCE_VAPP self'
               \<longrightarrow> \<not> isl (affinity_outcome renv sid self'))"
    then show "fst (preMigrationValidation envs renv self) = Inl err"
      by (auto simp: res rollback_result)
  next
    assume h: "ENABLE_SOURCE_ORG_VDC self' \<and> enable_outcome renv sid self' = Inl e"
    then show "fst (preMigrationValidation envs renv self) = Inl e"
      by (simp add: res rollback_result)
    from h show "compensations (snd (preMigrationValidation envs renv self)) =
                  compensations self @ (if sid \<noteq> None then [EnableSourceOrgVdcCall] else [])"
      by (simp add: comp rollback_compensations same)
  next
    assume "(ENABLE_SOURCE_ORG_VDC self' \<longrightarrow> \<not> isl (enable_outcome renv sid self'))
          \<and> ENABLE_AFFINITY_RULES_IN_SOURCE_VAPP self'
          \<and> affinity_outcome renv sid self' = Inl e"
    then show "fst (preMigrationValidation envs renv self) = Inl e"
      by (auto simp: res rollback_result)
  next
    assume h: "\<not> ENABLE_SOURCE_ORG_VDC self \<and> \<not> ENABLE_AFFINITY_RULES_IN_SOURCE_VAPP self
              \<and> (ENABLE_SOURCE_ORG_VDC self' \<or> ENABLE_AFFINITY_RULES_IN_SOURCE_VAPP self')"
    show "sid \<noteq> None"
    proof
      assume "sid = None"
      with assms have "run_steps envs pipeline None self = (Inl err, None, self')" by simp
      from pipeline_unbound_flags [OF this] h show False by simp
    qed
  qed
qed

theorem rollback_reraises_or_propagates_witness:
  "fst (run_steps two_gateways pipeline None (new_vcd ''vcd.example'')) =
       Inl (Exception ''More than One Edge gateway exist for source Org VDC'')
   \<and> fst (preMigrationValidation two_gateways rollback_succeeds (new_vcd ''vcd.example'')) =
       Inl (Exception ''More than One Edge gateway exist for source Org VDC'')
   \<and> fst (preMigrationValidation two_gateways enable_refused (new_vcd ''vcd.example'')) =
       Inl (Exception ''Failed to Enable Source Org VDC: busy'')
   \<and> fst (preMigrationValidation login_refused rollback_succeeds both_flags_set) =
       Inl (UnboundLocalError ''sourceOrgVDCId'')
   \<and> compensations (snd (preMigrationValidation login_refused rollback_succeeds
                           both_flags_set)) = []"
proof -
  note inst1 = rollback_reraises_or_propagates [OF two_gateways_run, of rollback_succeeds,
                THEN conjunct1, THEN mp]
  note inst2 = rollback_reraises_or_propagates [OF two_gateways_run, of enable_refused
                  "Exception ''Failed to Enable Source Org VDC: busy''",
                THEN conjunct2, THEN conjunct1, THEN mp, THEN conjunct1]
  note inst3 = rollback_reraises_or_propagates [OF stale_flags_run, of rollback_succeeds
                  "UnboundLocalError ''sourceOrgVDCId''",
                THEN conjunct2, THEN conjunct1, THEN mp]
  have c: "fst (preMigrationValidation two_gateways rollback_succeeds (new_vcd ''vcd.example'')) =
       Inl (Exception ''More than One Edge gateway exist for source Org VDC'')"
    by (rule inst1) (simp add: rollback_succeeds_outcomes)
  have d: "fst (preMigrationValidation two_gateways enable_refused (new_vcd ''vcd.example'')) =
       Inl (Exception ''Failed to Enable Source Org VDC: busy'')"
    by (rule inst2) (simp add: enable_refused_outcome)
  have e: "fst (preMigrationValidation login_refused rollback_succeeds both_flags_set) =
             Inl (UnboundLocalError ''sourceOrgVDCId'')
           \<and> compensations (snd (preMigrationValidation login_refused rollback_succeeds
                                   both_flags_set)) =
               compensations both_flags_set
                 @ (if (None :: string option) \<noteq> None then [EnableSourceOrgVdcCall] else [])"
    by (rule inst3) (simp add: both_flags_set_def enable_outcome_def)
  have r: "fst (run_steps two_gateways pipeline None (new_vcd ''vcd.example'')) =
       Inl (Exception ''More than One Edge gateway exist for source Org VDC'')"
    by (simp add: two_gateways_run)
  have f: "compensations both_flags_set = []"
    by (simp add: compensations_def both_flags_set_def new_vcd_def)
  from r c d e f show ?thesis by simp
qed

text \<open>
  C2 as stated fails in the same run: the pipeline failed with ``More than One Edge
  gateway'', the re-enabling of the source Org VDC is refused during rollback, and what
  the caller gets is the error of the rollback, not the error that started it.
\<close>

theorem rollback_masks_first_error_counterexample:
  "fst (run_steps two_gateways pipeline None (new_vcd ''vcd.example'')) =
     Inl (Exception ''More than One Edge gateway exist for source Org VDC'')
   \<and> fst (preMigrationValidation two_gateways enable_refused (new_vcd ''vcd.example'')) =
       Inl (Exception ''Failed to Enable Source Org VDC: busy'')
   \<and> Exception ''Failed to Enable Source Org VDC: busy''
       \<noteq> Exception ''More than One Edge gateway exist for source Org VDC''"
  by (simp add: two_gateways_run preMigrationValidation_failure rollback_result
        enable_refused_outcome)

section \<open>The rollback flags are only ever set\<close>

lemma flags_kept_disableOrgVDC:
  "flags_kept self (snd (disableOrgVDC p l file post_reply i isSourceDisable self))"
  unfolding disableOrgVDC_def
proof (rule flags_kept_isSessionExpired)
  fix s
  show "flags_kept s (snd (disableOrgVDC_body file post_reply i isSourceDisable s))"
    by (simp add: flags_kept_def disableOrgVDC_body_def record_call_def Let_def
          split: sum.splits reply.splits)
qed

lemma flags_kept_validateStorageProfiles:
  "flags_kept self (snd (validateStorageProfiles p l file self))"
  unfolding validateStorageProfiles_def
proof (rule flags_kept_isSessionExpired)
  fix s
  show "flags_kept s (snd (validateStorageProfiles_body file s))"
    by (simp add: flags_kept_def validateStorageProfiles_body_def split: sum.splits)
qed

text \<open>
  C6. No operation of the pipeline unsets a rollback flag: a flag that is set before a
  step, the whole \<^verbatim>\<open>try\<close> block, the rollback handler, a whole run, or one of the methods
  modelled on their own, is set after it.
\<close>

theorem flags_are_write_once_true:
  "flags_kept self (snd (run_step env s self))
   \<and> flags_kept self (snd (snd (run_steps envs ss sid self)))
   \<and> flags_kept self (snd (rollback renv sid err self))
   \<and> flags_kept self (snd (preMigrationValidation envs renv self))
   \<and> flags_kept self (snd (vcdLogin reply self))
   \<and> flags_kept self (snd (enableSourceOrgVdc file post_reply i self))
   \<and> flags_kept self (snd (disableOrgVDC p l file post_reply i isSourceDisable self))
   \<and> flags_kept self (snd (enableOrDisableSourceAffinityRules p l body self))
   \<and> flags_kept self (snd (validateStorageProfiles p l file self))"
  by (intro conjI flags_kept_run_step flags_kept_run_steps flags_kept_rollback
        flags_kept_preMigrationValidation flags_kept_vcdLogin flags_kept_refl
        flags_kept_enableSourceOrgVdc flags_kept_disableOrgVDC flags_kept_affinity
        flags_kept_validateStorageProfiles)

theorem flags_are_write_once_true_witness:
  "ENABLE_SOURCE_ORG_VDC both_flags_set
   \<and> ENABLE_AFFINITY_RULES_IN_SOURCE_VAPP both_flags_set
   \<and> ENABLE_SOURCE_ORG_VDC
       (snd (preMigrationValidation two_gateways rollback_succeeds both_flags_set))
   \<and> ENABLE_AFFINITY_RULES_IN_SOURCE_VAPP
       (snd (preMigrationValidation two_gateways rollback_succeeds both_flags_set))"
proof -
  have a: "ENABLE_SOURCE_ORG_VDC both_flags_set"
    and b: "ENABLE_AFFINITY_RULES_IN_SOURCE_VAPP both_flags_set"
    by (simp_all add: both_flags_set_def)
  have kept: "flags_kept both_flags_set
                (snd (preMigrationValidation two_gateways rollback_succeeds both_flags_set))"
    by (rule flags_are_write_once_true
               [THEN conjunct2, THEN conjunct2, THEN conjunct2, THEN conjunct1])
  from a b kept show ?thesis by (simp add: flags_kept_def)
qed

section \<open>The source Org VDC keeps the state it had at discovery\<close>

lemma disableOrgVDC_already_disabled:
  assumes "file = Some data"
    and "sourceOrgVDC_attribute data ''IsEnabled'' = Inr (JStr ''false'')"
  shows "filter is_disable_post
           (calls (snd (disableOrgVDC p l file post_reply i True self))) =
         filter is_disable_post (calls self)"
  unfolding disableOrgVDC_def
proof (rule filter_calls_isSessionExpired)
  fix s
  show "filter is_disable_post (calls (snd (disableOrgVDC_body file post_reply i True s))) =
          filter is_disable_post (calls s)"
    using assms by (simp add: disableOrgVDC_body_def json_load_def split: sum.splits)
qed simp_all

lemma enableSourceOrgVdc_enable_posts:
  "filter is_enable_post (calls (snd (enableSourceOrgVdc file post_reply i self))) =
     filter is_enable_post (calls self)
       @ (if (\<exists>data. file = Some data
                \<and> sourceOrgVDC_attribute data ''IsEnabled'' = Inr (JStr ''true''))
          then [EnableOrgVdcPost (id_suffix i)] else [])"
  by (simp add: enableSourceOrgVdc_calls split: option.splits)

lemma rollback_second_enable_posts:
  "filter is_enable_post (calls (snd (rollback_second env i err self1))) =
     filter is_enable_post (calls self1)"
proof (cases "ENABLE_AFFINITY_RULES_IN_SOURCE_VAPP self1")
  case False
  then show ?thesis by (simp add: rollback_second_def)
next
  case True
  have "filter is_enable_post
          (calls (snd (enableOrDisableSourceAffinityRules (r_probe env) (r_login env)
                         (r_affinity_body env) (record_call EnableAffinityRulesCall self1)))) =
        filter is_enable_post (calls (record_call EnableAffinityRulesCall self1))"
    by (rule affinity_calls) simp_all
  moreover from True
  have "snd (rollback_second env i err self1) =
          snd (enableOrDisableSourceAffinityRules (r_probe env) (r_login env)
                 (r_affinity_body env) (record_call EnableAffinityRulesCall self1))"
    by (simp add: rollback_second_def split: prod.splits sum.splits)
  ultimately show ?thesis
    by (simp add: filter_calls_record_call)
qed

lemma rollback_disabled_no_enable_post:
  assumes "r_file env = Some data"
    and "sourceOrgVDC_attribute data ''IsEnabled'' = Inr (JStr ''false'')"
  shows "filter is_enable_post (calls (snd (rollback env sid err self))) =
           filter is_enable_post (calls self)"
proof (cases sid)
  case None
  show ?thesis
  proof (cases "ENABLE_SOURCE_ORG_VDC self \<or> ENABLE_AFFINITY_RULES_IN_SOURCE_VAPP self")
    case True
    with None show ?thesis by (simp add: rollback_unbound)
  next
    case False
    with None show ?thesis by (simp add: rollback_no_flag)
  qed
next
  case (Some i)
  have en: "filter is_enable_post
              (calls (snd (enableSourceOrgVdc (r_file env) (r_enable_reply env) i self))) =
            filter is_enable_post (calls self)"
    using assms by (simp add: enableSourceOrgVdc_enable_posts)
  show ?thesis
  proof (cases "ENABLE_SOURCE_ORG_VDC self")
    case False
    with Some show ?thesis by (simp add: rollback_enable_not_due rollback_second_enable_posts)
  next
    case True
    show ?thesis
    proof (cases "fst (enableSourceOrgVdc (r_file env) (r_enable_reply env) i self)")
      case (Inl e)
      with True Some en show ?thesis by (simp add: rollback_enable_raises)
    next
      case (Inr u)
      with True Some en show ?thesis
        by (simp add: rollback_enable_returns rollback_second_enable_posts)
    qed
  qed
qed

lemma preMigrationValidation_disabled_no_enable_post:
  assumes "r_file renv = Some data"
    and "sourceOrgVDC_attribute data ''IsEnabled'' = Inr (JStr ''false'')"
  shows "filter is_enable_post (calls (snd (preMigrationValidation envs renv self))) =
           filter is_enable_post (calls self)"
proof -
  obtain r sid self' where run: "run_steps envs pipeline None self = (r, sid, self')"
    by (cases "run_steps envs pipeline None self")
  have "filter is_enable_post (calls (snd (snd (run_steps envs pipeline None self)))) =
          filter is_enable_post (calls self)"
    by (rule run_steps_calls) simp_all
  with run have same: "filter is_enable_post (calls self') = filter is_enable_post (calls self)"
    by simp
  show ?thesis
  proof (cases r)
    case (Inr u)
    with run same show ?thesis by (simp add: preMigrationValidation_state)
  next
    case (Inl err)
    with run same rollback_disabled_no_enable_post [OF assms, of sid err self']
    show ?thesis by (simp add: preMigrationValidation_state)
  qed
qed

lemma disabled_document_facts:
  "disabled_document = Some [(''sourceOrgVDC'',
       JDict [(''@name'', JStr ''vdc1''), (''IsEnabled'', JStr ''false'')])]
   \<and> sourceOrgVDC_attribute [(''sourceOrgVDC'',
       JDict [(''@name'', JStr ''vdc1''), (''IsEnabled'', JStr ''false'')])] ''IsEnabled''
     = Inr (JStr ''false'')"
  by (simp add: disabled_document_def sourceOrgVDC_attribute_def bind_def)

text \<open>
  C10. \<^verbatim>\<open>enableSourceOrgVdc\<close> sends the request that enables the Org VDC if and only if
  the document records \<^verbatim>\<open>IsEnabled\<close> as \<^verbatim>\<open>"true"\<close> for the source Org VDC; for a document
  that records \<^verbatim>\<open>"false"\<close>, \<^verbatim>\<open>disableOrgVDC\<close> sends no request to disable the source, and
  neither the rollback handler nor a whole run sends a request that enables it.
\<close>

theorem source_org_vdc_state_is_preserved:
  "filter is_enable_post (calls (snd (enableSourceOrgVdc file post_reply i self))) =
     filter is_enable_post (calls self)
       @ (if (\<exists>data. file = Some data
                \<and> sourceOrgVDC_attribute data ''IsEnabled'' = Inr (JStr ''true''))
          then [EnableOrgVdcPost (id_suffix i)] else [])
   \<and> (file = Some data \<and> sourceOrgVDC_attribute data ''IsEnabled'' = Inr (JStr ''false'')
        \<longrightarrow> filter is_disable_post
              (calls (snd (disableOrgVDC p l file post_reply i True self))) =
            filter is_disable_post (calls self))
   \<and> (r_file renv = Some data
        \<and> sourceOrgVDC_attribute data ''IsEnabled'' = Inr (JStr ''false'')
        \<longrightarrow> filter is_enable_post (calls (snd (rollback renv sid err self))) =
              filter is_enable_post (calls self)
            \<and> filter is_enable_post (calls (snd (preMigrationValidation envs renv self))) =
              filter is_enable_post (calls self))"
proof (intro conjI impI)
  show "filter is_enable_post (calls (snd (enableSourceOrgVdc file post_reply i self))) =
     filter is_enable_post (calls self)
       @ (if (\<exists>data. file = Some data
                \<and> sourceOrgVDC_attribute data ''IsEnabled'' = Inr (JStr ''true''))
          then [EnableOrgVdcPost (id_suffix i)] else [])"
    by (rule enableSourceOrgVdc_enable_posts)
next
  assume "file = Some data \<and> sourceOrgVDC_attribute data ''IsEnabled'' = Inr (JStr ''false'')"
  then have a: "file = Some data"
    and b: "sourceOrgVDC_attribute data ''IsEnabled'' = Inr (JStr ''false'')" by simp_all
  from disableOrgVDC_already_disabled [OF a b]
  show "filter is_disable_post
              (calls (snd (disableOrgVDC p l file post_reply i True self))) =
            filter is_disable_post (calls self)" .
next
  assume "r_file renv = Some data
        \<and> sourceOrgVDC_attribute data ''IsEnabled'' = Inr (JStr ''false'')"
  then have a: "r_file renv = Some data"
    and b: "sourceOrgVDC_attribute data ''IsEnabled'' = Inr (JStr ''false'')" by simp_all
  from rollback_disabled_no_enable_post [OF a b]
  show "filter is_enable_post (calls (snd (rollback renv sid err self))) =
              filter is_enable_post (calls self)" .
  from preMigrationValidation_disabled_no_enable_post [OF a b]
  show "filter is_enable_post (calls (snd (preMigrationValidation envs renv self))) =
              filter is_enable_post (calls self)" .
qed

theorem source_org_vdc_state_is_preserved_witness:
  "filter is_disable_post
     (calls (snd (disableOrgVDC (Inr 200) (LoginResponse 200 (Some ''tok'')) disabled_document
                    (Reply 204 []) ''urn:vcloud:vdc:1'' True (new_vcd ''vcd.example'')))) = []
   \<and> filter is_enable_post
       (calls (snd (preMigrationValidation two_gateways rollback_disabled
                      (new_vcd ''vcd.example'')))) = []"
proof -
  have h1: "disabled_document = Some [(''sourceOrgVDC'',
              JDict [(''@name'', JStr ''vdc1''), (''IsEnabled'', JStr ''false'')])]
            \<and> sourceOrgVDC_attribute [(''sourceOrgVDC'',
                JDict [(''@name'', JStr ''vdc1''), (''IsEnabled'', JStr ''false'')])]
                ''IsEnabled'' = Inr (JStr ''false'')"
    by (rule disabled_document_facts)
  have h2: "r_file rollback_disabled = Some [(''sourceOrgVDC'',
              JDict [(''@name'', JStr ''vdc1''), (''IsEnabled'', JStr ''false'')])]
            \<and> sourceOrgVDC_attribute [(''sourceOrgVDC'',
                JDict [(''@name'', JStr ''vdc1''), (''IsEnabled'', JStr ''false'')])]
                ''IsEnabled'' = Inr (JStr ''false'')"
    using h1 by (simp add: rollback_disabled_def)
  have inst1: "filter is_disable_post
     (calls (snd (disableOrgVDC (Inr 200) (LoginResponse 200 (Some ''tok'')) disabled_document
                    (Reply 204 []) ''urn:vcloud:vdc:1'' True (new_vcd ''vcd.example'')))) =
     filter is_disable_post (calls (new_vcd ''vcd.example''))"
    by (rule source_org_vdc_state_is_preserved [THEN conjunct2, THEN conjunct1, THEN mp])
       (rule h1)
  have inst2: "filter is_enable_post
       (calls (snd (preMigrationValidation two_gateways rollback_disabled
                      (new_vcd ''vcd.example'')))) =
     filter is_enable_post (calls (new_vcd ''vcd.example''))"
    by (rule source_org_vdc_state_is_preserved
               [THEN conjunct2, THEN conjunct2, THEN mp, THEN conjunct2])
       (rule h2)
  from inst1 inst2 show ?thesis by (simp add: new_vcd_def)
qed

section \<open>Writes to the shared document\<close>

lemma dict_get_dict_set:
  "dict_get (dict_set k v d) k' = (if k' = k then Some v else dict_get d k')"
  by (induction d) (auto simp: dict_get_def)

text \<open>
  C7. Whatever the document loaded from the file, the document a writer dumps holds the
  new value at each key the writer assigns and the loaded value at every other key.
  \<^verbatim>\<open>getEdgeGatewayServices\<close> assigns four or five keys before its one dump;
  \<^verbatim>\<open>getOrgVDCUrl\<close> writes only into an empty document.
\<close>

theorem writes_keep_the_other_keys:
  "dict_get (getProviderVDCDetails_store isNSXTbacked providerVdc data) k =
     (if k = getProviderVDCDetails_key isNSXTbacked then Some providerVdc else dict_get data k)
   \<and> dict_get (getExternalNetwork_store backingType isDummyNetwork response data) k =
     (if k = getExternalNetwork_key backingType isDummyNetwork then Some response
      else dict_get data k)
   \<and> dict_get (getOrgVDCDetails_store orgVDCType adminVdc data) k =
     (if k = orgVDCType then Some adminVdc else dict_get data k)
   \<and> dict_get (validateVMPlacementPolicy_store policies data) k =
     (if k = ''sourceOrgVDCComputePolicyList'' then Some policies else dict_get data k)
   \<and> dict_get (getOrgVDCAffinityRules_store rules data) k =
     (if k = ''sourceVMAffinityRules'' then Some rules else dict_get data k)
   \<and> dict_get (validateSingleEdgeGatewayExistForOrgVDC_store gateway data) k =
     (if k = ''sourceEdgeGateway'' then Some gateway else dict_get data k)
   \<and> dict_get (getOrgVDCNetworks_store orgVDCNetworkType orgVDCNetworkList data) k =
     (if k = orgVDCNetworkType then Some orgVDCNetworkList else dict_get data k)
   \<and> dict_get (getEdgeGatewayServices_store dhcpConfigDict firewallConfigDict natConfigDict
                 routingConfigDict dnsConfigDict data) k =
     (if k = ''sourceEdgeGatewayDNS'' \<and> py_truthy dnsConfigDict then Some dnsConfigDict
      else if k = ''sourceEdgeGatewayRouting'' then Some routingConfigDict
      else if k = ''sourceEdgeGatewayNAT'' then Some natConfigDict
      else if k = ''sourceEdgeGatewayFirewall'' then Some firewallConfigDict
      else if k = ''sourceEdgeGatewayDHCP'' then Some dhcpConfigDict
      else dict_get data k)
   \<and> dict_get (getOrgVDCUrl_store saveResponse adminOrg data) k =
     (if data = [] \<and> saveResponse \<and> k = ''Organization'' then Some adminOrg
      else dict_get data k)"
proof (intro conjI)
  show "dict_get (getEdgeGatewayServices_store dhcpConfigDict firewallConfigDict natConfigDict
                 routingConfigDict dnsConfigDict data) k =
     (if k = ''sourceEdgeGatewayDNS'' \<and> py_truthy dnsConfigDict then Some dnsConfigDict
      else if k = ''sourceEdgeGatewayRouting'' then Some routingConfigDict
      else if k = ''sourceEdgeGatewayNAT'' then Some natConfigDict
      else if k = ''sourceEdgeGatewayFirewall'' then Some firewallConfigDict
      else if k = ''sourceEdgeGatewayDHCP'' then Some dhcpConfigDict
      else dict_get data k)"
    by (simp add: getEdgeGatewayServices_store_def Let_def dict_get_dict_set)
  show "dict_get (getOrgVDCUrl_store saveResponse adminOrg data) k =
     (if data = [] \<and> saveResponse \<and> k = ''Organization'' then Some adminOrg
      else dict_get data k)"
    by (simp add: getOrgVDCUrl_store_def dict_get_def)
qed (simp_all add: getProviderVDCDetails_store_def getExternalNetwork_store_def
       getOrgVDCDetails_store_def validateVMPlacementPolicy_store_def
       getOrgVDCAffinityRules_store_def validateSingleEdgeGatewayExistForOrgVDC_store_def
       getOrgVDCNetworks_store_def dict_get_dict_set)

section \<open>One record or a list of records\<close>

lemma bind_Inr: "bind (Inr x) f = f x"
  by (simp add: bind_def)

lemma bind_Inl: "bind (Inl e) f = Inl e"
  by (simp add: bind_def)

lemma list_if_dict_one: "list_if_dict (JDict r) = list_if_dict (JList [JDict r])"
  by (simp add: list_if_dict_def)

text \<open>
  \<^verbatim>\<open>validateStorageProfiles\<close> and \<^verbatim>\<open>getOrgVDCUrl\<close> wrap a lone record into a list before
  they iterate: the outcome for a payload with the record is the outcome for the payload
  with the list of that one record.
\<close>

lemma validateStorageProfiles_one_record:
  assumes "getpath (JDict data)
             [''sourceOrgVDC'', ''VdcStorageProfiles'', ''VdcStorageProfile''] = Inr (JDict r)"
    and "getpath (JDict data')
             [''sourceOrgVDC'', ''VdcStorageProfiles'', ''VdcStorageProfile'']
           = Inr (JList [JDict r])"
    and "getpath (JDict data)
             [''targetProviderVDC'', ''StorageProfiles'', ''ProviderVdcStorageProfile''] =
         getpath (JDict data')
             [''targetProviderVDC'', ''StorageProfiles'', ''ProviderVdcStorageProfile'']"
  shows "validateStorageProfiles_try (Some data) = validateStorageProfiles_try (Some data')"
  using assms
  by (simp add: validateStorageProfiles_try_def json_load_def list_if_dict_one bind_Inr
        del: getpath.simps)

lemma getOrgVDCUrl_lookup_one_record:
  assumes "getpath responseDict [''AdminOrg'', ''Vdcs'', ''Vdc''] = Inr (JDict r)"
    and "getpath responseDict' [''AdminOrg'', ''Vdcs'', ''Vdc''] = Inr (JList [JDict r])"
  shows "getOrgVDCUrl_lookup responseDict orgUrl orgVDCName =
         getOrgVDCUrl_lookup responseDict' orgUrl orgVDCName"
  using assms
  by (simp add: getOrgVDCUrl_lookup_def list_if_dict_one bind_Inr del: getpath.simps)

text \<open>
  C8 does not hold of \<^verbatim>\<open>validateHardwareVersion\<close>, which iterates over
  \<^verbatim>\<open>SupportedHardwareVersion\<close> as it was decoded. For a source Provider VDC with the one
  hardware version \<open>vmx-14\<close>, decoded as a record, the loop runs over the keys of the
  record and indexing the first key raises \<^verbatim>\<open>TypeError\<close>; for the same version given as a
  list of one record the check passes.
\<close>

theorem validateHardwareVersion_one_record:
  "validateHardwareVersion (hardware_document (hw ''vmx-14'') (JList [hw ''vmx-14''])) =
     Inl (TypeError ''string indices must be integers'')
   \<and> validateHardwareVersion
       (hardware_document (JList [hw ''vmx-14'']) (JList [hw ''vmx-14''])) = Inr ()"
  by (simp add: validateHardwareVersion_def hardware_document_def pvdc_def hw_def bind_def
        highest_version_def version_round_def py_int_def is_digit_def digit_value_def)

section \<open>The failure raised for an incompatible hardware version\<close>

lemma validateHardwareVersion_source_higher:
  assumes "highest_version sourceVersions = Inr (hs, ns)"
    and "highest_version targetVersions = Inr (ht, nt)"
    and "ht < hs"
  shows "validateHardwareVersion (hardware_document sourceVersions targetVersions) =
           Inl (TypeError ''exceptions must derive from BaseException'')"
  using assms
  by (simp add: validateHardwareVersion_def hardware_document_def pvdc_def bind_def
        raise_str_def)

text \<open>
  C9 does not hold of the code. With the source Provider VDC at \<open>vmx-15\<close> and the target
  one at \<open>vmx-14\<close> the check does fail, but with the \<^verbatim>\<open>TypeError\<close> Python raises for
  \<^verbatim>\<open>raise\<close> applied to a string: the text that names the two versions is built and then
  lost, and no exception carries it.
\<close>

theorem validateHardwareVersion_raises_a_string:
  "validateHardwareVersion (hardware_document (JList [hw ''vmx-15'']) (JList [hw ''vmx-14''])) =
     Inl (TypeError ''exceptions must derive from BaseException'')
   \<and> highest_version (JList [hw ''vmx-15'']) = Inr (15, ''vmx-15'')
   \<and> highest_version (JList [hw ''vmx-14'']) = Inr (14, ''vmx-14'')
   \<and> TypeError ''exceptions must derive from BaseException''
       \<noteq> Exception (hardware_version_message ''vmx-15'' ''vmx-14'')"
  by (simp add: validateHardwareVersion_def hardware_document_def pvdc_def hw_def bind_def
        highest_version_def version_round_def py_int_def is_digit_def digit_value_def
        raise_str_def py_str_def)

end
